theory Spec2Isabelle
  imports Complex_Main "HOL-Library.Sublist"
begin

section \<open>Cells, rows and frames\<close>

text \<open>
  A pandas DataFrame of floats is a list of rows in index (time) order; a row maps a
  column label (symbol) to a cell. A cell is a finite number or NaN (\<open>None\<close>). Finite
  floats are read as reals (rounding and overflow are not modelled). The tables of
  prices, memberships and weights hold cells. The logarithm of a zero price and a
  quotient by a zero price are infinite: the frames computed from them (log prices,
  scores, bar returns, returns of the book) hold values of type \<open>flt\<close>, see below.
  Cross-sectional operations (rank, row sums) take the list of column labels \<open>cols\<close>.
\<close>

type_synonym cell = "real option"
type_synonym 's row = "'s \<Rightarrow> cell"
type_synonym 's frame = "'s row list"

fun fadd :: "cell \<Rightarrow> cell \<Rightarrow> cell" where
  "fadd (Some x) (Some y) = Some (x + y)"
| "fadd _ _ = None"

fun fsub :: "cell \<Rightarrow> cell \<Rightarrow> cell" where
  "fsub (Some x) (Some y) = Some (x - y)"
| "fsub _ _ = None"

fun fmul :: "cell \<Rightarrow> cell \<Rightarrow> cell" where
  "fmul (Some x) (Some y) = Some (x * y)"
| "fmul _ _ = None"

text \<open>
  Division of cells is used where the divisor is not zero (a rank by the number of
  ranked columns), where a zero divisor can only meet a zero dividend (0/0 is NaN:
  a weight by the row sum of the absolute weights), and in \<open>size_positions\<close>,
  where an infinite quotient is replaced by 0 like a NaN.
\<close>

fun fdiv :: "cell \<Rightarrow> cell \<Rightarrow> cell" where
  "fdiv (Some x) (Some y) = (if y = 0 then None else Some (x / y))"
| "fdiv _ _ = None"

definition fabs :: "cell \<Rightarrow> cell" where
  "fabs c = map_option abs c"

text \<open>Comparisons with NaN are false.\<close>

fun cge :: "cell \<Rightarrow> real \<Rightarrow> bool" where
  "cge (Some x) y = (x \<ge> y)"
| "cge None y = False"

fun cle :: "cell \<Rightarrow> real \<Rightarrow> bool" where
  "cle (Some x) y = (x \<le> y)"
| "cle None y = False"

text \<open>
  \<open>Series.clip(lower, upper)\<close> with two scalar bounds: pandas orders the bounds first
  (\<open>lower, upper = min(lower, upper), max(lower, upper)\<close>), raises values below
  \<open>lower\<close>, then lowers values above \<open>upper\<close>; NaN stays NaN.
\<close>

fun clip :: "real \<Rightarrow> real \<Rightarrow> cell \<Rightarrow> cell" where
  "clip lo hi None = None"
| "clip lo hi (Some x) = Some (min (max lo hi) (max (min lo hi) x))"

fun fillna :: "real \<Rightarrow> cell \<Rightarrow> cell" where
  "fillna v None = Some v"
| "fillna v (Some x) = Some x"

text \<open>\<open>sum(axis=1)\<close> skips NaN; an all-NaN row sums to 0.\<close>

definition nansum :: "'s list \<Rightarrow> 's row \<Rightarrow> real" where
  "nansum cols r = sum_list (map (\<lambda>s. case r s of None \<Rightarrow> 0 | Some x \<Rightarrow> x) cols)"

text \<open>\<open>pd.Series(v, index=cols)\<close>: the same value in every column.\<close>

definition const_row :: "real \<Rightarrow> 's row" where
  "const_row v = (\<lambda>_. Some v)"

definition zero_row :: "'s row" where
  "zero_row = const_row 0"

definition nan_row :: "'s row" where
  "nan_row = (\<lambda>_. None)"

text \<open>
  \<open>DataFrame.diff(periods)\<close> is \<open>x - x.shift(periods)\<close>: row \<open>i\<close> minus row
  \<open>i - periods\<close>, NaN where that row does not exist. A negative \<open>periods\<close> reads
  later rows.
\<close>

definition diff_rows :: "int \<Rightarrow> 's frame \<Rightarrow> 's frame" where
  "diff_rows periods xs =
     map (\<lambda>i. let j = int i - periods
              in if 0 \<le> j \<and> j < int (length xs)
                 then (\<lambda>s. fsub ((xs ! i) s) ((xs ! nat j) s))
                 else nan_row)
         [0..<length xs]"

section \<open>Values that can be infinite\<close>

datatype flt = Fin real | PInf | NInf | NaN

type_synonym 's xrow = "'s \<Rightarrow> flt"
type_synonym 's xframe = "'s xrow list"

definition flt_of :: "cell \<Rightarrow> flt" where
  "flt_of c = (case c of None \<Rightarrow> NaN | Some x \<Rightarrow> Fin x)"

fun xneg :: "flt \<Rightarrow> flt" where
  "xneg (Fin x) = Fin (- x)"
| "xneg PInf = NInf"
| "xneg NInf = PInf"
| "xneg NaN = NaN"

text \<open>Subtraction: \<open>inf - inf\<close> is NaN.\<close>

fun xsub :: "flt \<Rightarrow> flt \<Rightarrow> flt" where
  "xsub NaN b = NaN"
| "xsub a NaN = NaN"
| "xsub (Fin x) (Fin y) = Fin (x - y)"
| "xsub (Fin x) PInf = NInf"
| "xsub (Fin x) NInf = PInf"
| "xsub PInf PInf = NaN"
| "xsub PInf b = PInf"
| "xsub NInf NInf = NaN"
| "xsub NInf b = NInf"

text \<open>The order of the floats; every comparison with NaN is false.\<close>

fun xlt :: "flt \<Rightarrow> flt \<Rightarrow> bool" where
  "xlt NaN b = False"
| "xlt a NaN = False"
| "xlt (Fin x) (Fin y) = (x < y)"
| "xlt (Fin x) PInf = True"
| "xlt (Fin x) NInf = False"
| "xlt PInf b = False"
| "xlt NInf NInf = False"
| "xlt NInf b = True"

text \<open>The quotient of two prices: \<open>x / 0\<close> is \<open>inf\<close>, \<open>-inf\<close> or (for \<open>0 / 0\<close>) NaN.\<close>

fun xdiv :: "cell \<Rightarrow> cell \<Rightarrow> flt" where
  "xdiv (Some x) (Some y) =
     (if y \<noteq> 0 then Fin (x / y) else if x > 0 then PInf else if x < 0 then NInf else NaN)"
| "xdiv a b = NaN"

text \<open>A weight times a return: \<open>0 * inf\<close> is NaN.\<close>

fun xmul :: "cell \<Rightarrow> flt \<Rightarrow> flt" where
  "xmul None b = NaN"
| "xmul (Some w) NaN = NaN"
| "xmul (Some w) (Fin r) = Fin (w * r)"
| "xmul (Some w) PInf = (if w > 0 then PInf else if w < 0 then NInf else NaN)"
| "xmul (Some w) NInf = (if w > 0 then NInf else if w < 0 then PInf else NaN)"

text \<open>
  \<open>sum(axis=1)\<close> skips NaN and adds the rest: infinities of both signs give NaN, of
  one sign that infinity.
\<close>

definition xnansum :: "'s list \<Rightarrow> 's xrow \<Rightarrow> flt" where
  "xnansum cols r =
     (let vs = map r cols
      in if PInf \<in> set vs \<and> NInf \<in> set vs then NaN
         else if PInf \<in> set vs then PInf
         else if NInf \<in> set vs then NInf
         else Fin (sum_list (map (\<lambda>v. case v of Fin x \<Rightarrow> x | _ \<Rightarrow> 0) vs)))"

definition xconst_row :: "real \<Rightarrow> 's xrow" where
  "xconst_row v = (\<lambda>_. Fin v)"

definition xnan_row :: "'s xrow" where
  "xnan_row = (\<lambda>_. NaN)"

definition xdiff_rows :: "int \<Rightarrow> 's xframe \<Rightarrow> 's xframe" where
  "xdiff_rows periods xs =
     map (\<lambda>i. let j = int i - periods
              in if 0 \<le> j \<and> j < int (length xs)
                 then (\<lambda>s. xsub ((xs ! i) s) ((xs ! nat j) s))
                 else xnan_row)
         [0..<length xs]"

section \<open>Loops over the rows of a frame\<close>

text \<open>
  The source's sequential loops have the shape
  \<^verbatim>\<open>for _, row in frame.iterrows(): prev = f(prev, row); rows.append(prev)\<close>.
\<close>

fun scan_rows :: "('st \<Rightarrow> 'a \<Rightarrow> 'st) \<Rightarrow> 'st \<Rightarrow> 'a list \<Rightarrow> 'st list" where
  "scan_rows f prev [] = []"
| "scan_rows f prev (row # rows) = f prev row # scan_rows f (f prev row) rows"

section \<open>Execution control (backtest.py)\<close>

text \<open>\<open>rate_limit_time\<close>, lines 36-44. One pass of the loop body:\<close>

definition rate_limit_step :: "real \<Rightarrow> real \<Rightarrow> 's row \<Rightarrow> 's row \<Rightarrow> 's row" where
  "rate_limit_step step max_w prev row =
     (\<lambda>s. let delta = clip (- step) step (fsub (row s) (prev s))
          in clip (- max_w) max_w (fadd (prev s) delta))"

definition rate_limit_time :: "'s frame \<Rightarrow> real \<Rightarrow> real \<Rightarrow> 's frame" where
  "rate_limit_time w_target step_bps max_w =
     (let step = step_bps / 10000
      in scan_rows (rate_limit_step step max_w) zero_row w_target)"

text \<open>\<open>apply_no_trade_band\<close>, lines 164-173: \<open>prev.where(~trade, row)\<close>.\<close>

definition band_step :: "real \<Rightarrow> 's row \<Rightarrow> 's row \<Rightarrow> 's row" where
  "band_step band prev row =
     (\<lambda>s. let delta = fsub (row s) (prev s);
              trade = cge (fabs delta) band
          in if \<not> trade then prev s else row s)"

definition apply_no_trade_band :: "'s frame \<Rightarrow> real \<Rightarrow> 's frame" where
  "apply_no_trade_band w_smooth band_bps =
     (let band = band_bps / 10000
      in scan_rows (band_step band) zero_row w_smooth)"

section \<open>Turnover and costs\<close>

text \<open>\<open>weights.diff().abs().sum(axis=1)\<close> (backtest.py line 298, costs.py line 33).\<close>

definition turnover_of :: "'s list \<Rightarrow> 's frame \<Rightarrow> real list" where
  "turnover_of cols weights =
     map (\<lambda>r. nansum cols (\<lambda>s. fabs (r s))) (diff_rows 1 weights)"

text \<open>\<open>costs_from_turnover\<close>, costs.py lines 33-34.\<close>

definition costs_from_turnover :: "'s list \<Rightarrow> 's frame \<Rightarrow> real \<Rightarrow> real list" where
  "costs_from_turnover cols weights cost_bps =
     (let dw = turnover_of cols weights
      in map (\<lambda>x. x * cost_bps / 10000) dw)"

section \<open>Sticky membership (backtest.py, sticky_membership)\<close>

datatype error = AssertionError | IndexError

text \<open>
  \<open>score.rank(axis=1, method="first", pct=True)\<close>: within a row, the rank of a value is
  one plus the number of smaller values plus the number of equal values in earlier
  columns; infinities are ranked like numbers; NaN is not ranked and stays NaN; \<open>pct\<close>
  divides by the number of ranked values of the row.
\<close>

definition rank_first :: "'s list \<Rightarrow> 's xrow \<Rightarrow> 's \<Rightarrow> cell" where
  "rank_first cols r s =
     (if r s = NaN then None
      else Some (real (length (filter (\<lambda>c. xlt (r c) (r s)) cols)
                       + length (filter (\<lambda>c. r c = r s) (takeWhile (\<lambda>c. c \<noteq> s) cols))
                       + 1)))"

definition rank_pct :: "'s list \<Rightarrow> 's xrow \<Rightarrow> 's row" where
  "rank_pct cols r =
     (\<lambda>s. fdiv (rank_first cols r s) (Some (real (length (filter (\<lambda>c. r c \<noteq> NaN) cols)))))"

text \<open>Lines 79-91: the membership \<open>cur\<close> of one update time from \<open>prev\<close> and the ranks.\<close>

definition sticky_step :: "real \<Rightarrow> real \<Rightarrow> 's row \<Rightarrow> 's row \<Rightarrow> 's row" where
  "sticky_step q_in q_out prev r =
     (\<lambda>s. let was_long = (prev s = Some 1);
              was_short = (prev s = Some (- 1));
              stay_long = (was_long \<and> cge (r s) (1 - q_out));
              stay_short = (was_short \<and> cle (r s) q_out);
              enter_long = ((\<not> was_long) \<and> cge (r s) (1 - q_in));
              enter_short = ((\<not> was_short) \<and> cle (r s) q_in)
          in if stay_short \<or> enter_short then Some (- 1)
             else if stay_long \<or> enter_long then Some 1
             else Some 0)"

text \<open>
  Lines 77-94: \<open>prev\<close> after each row of the index; it changes at update times only.
  The update mask is aligned with the index of \<open>score\<close>.
\<close>

definition sticky_prev :: "'s list \<Rightarrow> real \<Rightarrow> real \<Rightarrow> 's row \<Rightarrow> bool \<times> 's xrow \<Rightarrow> 's row" where
  "sticky_prev cols q_in q_out prev ur =
     (if fst ur then sticky_step q_in q_out prev (rank_pct cols (snd ur)) else prev)"

text \<open>\<open>DataFrame.ffill()\<close>: a NaN cell takes the last earlier number of its column.\<close>

definition ffill_step :: "'s row \<Rightarrow> 's row \<Rightarrow> 's row" where
  "ffill_step prev row = (\<lambda>s. case row s of None \<Rightarrow> prev s | Some v \<Rightarrow> Some v)"

definition ffill :: "'s frame \<Rightarrow> 's frame" where
  "ffill rows = scan_rows ffill_step nan_row rows"

definition replace_zero_nan :: "cell \<Rightarrow> cell" where
  "replace_zero_nan c = (if c = Some 0 then None else c)"

text \<open>
  The frame \<open>m\<close> after the loop (the row of an update time is \<open>cur\<close>, every other row is
  still 0.0), then line 96: \<open>m.replace(0.0, np.nan).ffill().fillna(0.0)\<close>.
\<close>

definition sticky_rows :: "'s list \<Rightarrow> 's xframe \<Rightarrow> real \<Rightarrow> real \<Rightarrow> bool list \<Rightarrow> 's frame" where
  "sticky_rows cols score q_in q_out update_mask =
     (let prevs = scan_rows (sticky_prev cols q_in q_out) zero_row (zip update_mask score);
          m = map (\<lambda>(u, cur). if u then cur else zero_row) (zip update_mask prevs)
      in map (\<lambda>r s. fillna 0 (r s)) (ffill (map (\<lambda>r s. replace_zero_nan (r s)) m)))"

text \<open>
  \<open>sticky_membership\<close>: the assertion of line 69 comes first; \<open>m.iloc[0]\<close> (line 77)
  raises IndexError on a frame without rows.
\<close>

definition sticky_membership ::
  "'s list \<Rightarrow> 's xframe \<Rightarrow> real \<Rightarrow> real \<Rightarrow> bool list option \<Rightarrow> error + 's frame" where
  "sticky_membership cols score q_in q_out update_mask =
     (if \<not> (q_out \<ge> q_in) then Inl AssertionError
      else if score = [] then Inl IndexError
      else Inr (sticky_rows cols score q_in q_out
                  (case update_mask of
                     None \<Rightarrow> replicate (length score) True
                   | Some um \<Rightarrow> um)))"

section \<open>Position sizing (portfolio.py, size_positions)\<close>

text \<open>
  Lines 92-97. \<open>gross / gross_now\<close> is an infinity or NaN exactly when \<open>gross_now = 0\<close>,
  and \<open>.replace([np.inf, -np.inf], 0.0).fillna(0.0)\<close> sends both to 0.
\<close>

definition size_positions :: "'s list \<Rightarrow> 's frame \<Rightarrow> real \<Rightarrow> real \<Rightarrow> 's frame" where
  "size_positions cols raw gross max_w =
     map (\<lambda>r.
            let tot = nansum cols (\<lambda>s. fabs (r s));
                scaled = (\<lambda>s. fmul (fdiv (r s) (Some tot)) (Some gross));
                capped = (\<lambda>s. fillna 0 (clip (- max_w) max_w (scaled s)));
                gross_now = nansum cols (\<lambda>s. fabs (capped s));
                adj = fillna 0 (fdiv (Some gross) (Some gross_now))
            in (\<lambda>s. fillna 0 (fmul (capped s) adj)))
         raw"

section \<open>The backtest (backtest.py, vector_backtest)\<close>

text \<open>
  The input is the long-form table after \<open>to_wide\<close>: one entry per timestamp of the
  sorted index, with the local calendar date (a day number), the local time of day in
  minutes after midnight, and the rows of the \<open>open\<close> and \<open>close\<close> frames.
\<close>

record 's bar =
  b_day :: int
  b_minute :: real
  b_open :: "'s row"
  b_close :: "'s row"

text \<open>
  \<open>signal_mode\<close> and \<open>exec_mode\<close> are strings compared after \<open>lower()\<close>; the last
  constructor of each type stands for every other string.
\<close>

datatype signal_mode = Momentum | MeanRev

datatype exec_mode = Ratelimit | Band | Grid | OtherExec

record config =
  cfg_gross :: real
  cfg_max_w :: real
  cfg_cost_bps :: real
  cfg_skip_first_min :: int
  cfg_skip_last_min :: int
  cfg_exec_mode :: exec_mode
  cfg_step_bps :: real
  cfg_band_bps :: real
  cfg_grid_bps :: real
  cfg_rebalance_every_n_bars :: int
  cfg_signal_mode :: signal_mode
  cfg_K :: int
  cfg_q_in :: real
  cfg_q_out :: real

text \<open>\<open>frame.loc[mask]\<close> and \<open>series.reindex(frame.loc[mask].index)\<close>: the rows where the mask holds.\<close>

definition loc_mask :: "bool list \<Rightarrow> 'a list \<Rightarrow> 'a list" where
  "loc_mask msk xs = map snd (filter fst (zip msk xs))"

text \<open>Lines 243-247: the session mask (open 09:30 = minute 570, close 16:00 = minute 960).\<close>

definition bt_mask :: "config \<Rightarrow> 's bar list \<Rightarrow> bool list" where
  "bt_mask cfg bars =
     map (\<lambda>b. b_minute b - 570 \<ge> of_int (cfg_skip_first_min cfg)
             \<and> 960 - b_minute b \<ge> of_int (cfg_skip_last_min cfg))
         bars"

text \<open>\<open>by_day.groupby(by_day).cumcount()\<close>: the number of earlier rows of the same day.\<close>

definition bar_num :: "int list \<Rightarrow> nat list" where
  "bar_num days = map (\<lambda>i. length (filter (\<lambda>d. d = days ! i) (take i days))) [0..<length days]"

text \<open>
  Line 251. pandas gives NaN for an integer modulo zero, and \<open>NaN == 0\<close> is false.
  Python's \<open>%\<close> and HOL's \<open>mod\<close> on \<open>int\<close> both take the sign of the divisor.
\<close>

definition bt_update_mask :: "config \<Rightarrow> 's bar list \<Rightarrow> bool list" where
  "bt_update_mask cfg bars =
     map (\<lambda>k. cfg_rebalance_every_n_bars cfg \<noteq> 0
             \<and> int k mod cfg_rebalance_every_n_bars cfg = 0)
         (bar_num (map b_day bars))"

text \<open>\<open>np.log\<close>: \<open>-inf\<close> for 0, NaN for a negative number.\<close>

fun flog :: "cell \<Rightarrow> flt" where
  "flog None = NaN"
| "flog (Some x) = (if x > 0 then Fin (ln x) else if x = 0 then NInf else NaN)"

text \<open>Lines 257-264.\<close>

definition bt_score :: "config \<Rightarrow> 's bar list \<Rightarrow> 's xframe" where
  "bt_score cfg bars =
     (let prices = map b_close bars;
          retk = xdiff_rows (cfg_K cfg) (map (\<lambda>r s. flog (r s)) prices)
      in if cfg_signal_mode cfg = Momentum then map (\<lambda>r s. xneg (r s)) retk else retk)"

text \<open>
  Lines 269-272, from the membership frame returned by \<open>sticky_membership\<close>:
  \<open>memb.loc[mask]\<close>, the scaling to \<open>gross\<close>, the targets of update times carried
  forward, and the cap.
\<close>

definition bt_memb :: "config \<Rightarrow> 's bar list \<Rightarrow> 's frame \<Rightarrow> 's frame" where
  "bt_memb cfg bars memb = loc_mask (bt_mask cfg bars) memb"

definition bt_w_target :: "'s list \<Rightarrow> config \<Rightarrow> 's bar list \<Rightarrow> 's frame \<Rightarrow> 's frame" where
  "bt_w_target cols cfg bars memb =
     (let memb' = bt_memb cfg bars memb;
          w0 = map (\<lambda>r. let tot = nansum cols (\<lambda>s. fabs (r s))
                        in (\<lambda>s. fmul (fdiv (fillna 0 (r s)) (Some tot)) (Some (cfg_gross cfg))))
                   memb';
          update_mask2 = loc_mask (bt_mask cfg bars) (bt_update_mask cfg bars);
          w1 = map (\<lambda>(u, r). if u then r else nan_row) (zip update_mask2 w0);
          w2 = map (\<lambda>r s. fillna 0 (r s)) (ffill w1)
      in map (\<lambda>r s. clip (- cfg_max_w cfg) (cfg_max_w cfg) (r s)) w2)"

text \<open>\<open>DataFrame.round()\<close> rounds half to even.\<close>

definition round_half_even :: "real \<Rightarrow> real" where
  "round_half_even x =
     (let f = floor x; d = x - of_int f
      in if d < 1 / 2 then of_int f
         else if d > 1 / 2 then of_int (f + 1)
         else if even f then of_int f else of_int (f + 1))"

text \<open>Lines 274-291: the execution policy, then the end-of-day flattening.\<close>

definition bt_w_exec :: "'s list \<Rightarrow> config \<Rightarrow> 's bar list \<Rightarrow> 's frame \<Rightarrow> 's frame" where
  "bt_w_exec cols cfg bars memb =
     (let w_target = bt_w_target cols cfg bars memb;
          w_exec =
            (case cfg_exec_mode cfg of
               Ratelimit \<Rightarrow>
                 (let w_pre = (if cfg_band_bps cfg > 0
                               then apply_no_trade_band w_target (cfg_band_bps cfg)
                               else w_target)
                  in rate_limit_time w_pre (cfg_step_bps cfg) (cfg_max_w cfg))
             | Band \<Rightarrow> apply_no_trade_band w_target (cfg_band_bps cfg)
             | Grid \<Rightarrow>
                 (let g = max (1 / 100000000) (cfg_grid_bps cfg / 10000)
                  in map (\<lambda>r s. map_option (\<lambda>x. round_half_even (x / g) * g) (r s)) w_target)
             | OtherExec \<Rightarrow> w_target);
          eod_flat = loc_mask (bt_mask cfg bars) (map (\<lambda>b. 960 - b_minute b < 10) bars)
      in map (\<lambda>(e, r). if e then zero_row else r) (zip eod_flat w_exec))"

text \<open>\<open>DataFrame.shift(1)\<close>: every row moves down by one, the first row is NaN.\<close>

definition shift_rows :: "'s frame \<Rightarrow> 's frame" where
  "shift_rows rows = take (length rows) (nan_row # rows)"

text \<open>
  One row of the output frame. \<open>dropna()\<close> removes the rows with a NaN; an infinite
  return is not NaN and stays.
\<close>

record out_row =
  raw_ret :: flt
  tc :: cell
  net_ret :: flt
  turnover :: cell

definition dropna :: "out_row list \<Rightarrow> out_row list" where
  "dropna rows =
     filter (\<lambda>r. raw_ret r \<noteq> NaN \<and> tc r \<noteq> None \<and> net_ret r \<noteq> NaN \<and> turnover r \<noteq> None) rows"

text \<open>Lines 293-313: lagged weights, open-to-close returns, costs and the output frame.\<close>

definition bt_rets_oc :: "config \<Rightarrow> 's bar list \<Rightarrow> 's xframe" where
  "bt_rets_oc cfg bars =
     loc_mask (bt_mask cfg bars)
       (map (\<lambda>b s. xsub (xdiv (b_close b s) (b_open b s)) (Fin 1)) bars)"

definition bt_w_lag :: "'s frame \<Rightarrow> 's frame" where
  "bt_w_lag w_exec = map (\<lambda>r s. fillna 0 (r s)) (shift_rows w_exec)"

text \<open>The frame \<open>out\<close> of line 312, one row per in-session bar, before \<open>dropna()\<close>.\<close>

definition bt_rows :: "'s list \<Rightarrow> config \<Rightarrow> 's bar list \<Rightarrow> 's frame \<Rightarrow> out_row list" where
  "bt_rows cols cfg bars memb =
     (let w_exec = bt_w_exec cols cfg bars memb;
          rets_oc = bt_rets_oc cfg bars;
          w_lag = bt_w_lag w_exec;
          pnl_gross = map (\<lambda>(w, r). xnansum cols (\<lambda>s. xmul (w s) (r s))) (zip w_lag rets_oc);
          tcs = costs_from_turnover cols w_exec (cfg_cost_bps cfg);
          turnovers = turnover_of cols w_exec
      in map (\<lambda>(g, c, t). \<lparr>raw_ret = g, tc = Some c, net_ret = xsub g (flt_of (Some c)),
                            turnover = Some t\<rparr>)
             (zip pnl_gross (zip tcs turnovers)))"

definition bt_out :: "'s list \<Rightarrow> config \<Rightarrow> 's bar list \<Rightarrow> 's frame \<Rightarrow> out_row list" where
  "bt_out cols cfg bars memb = dropna (bt_rows cols cfg bars memb)"

definition vector_backtest :: "'s list \<Rightarrow> config \<Rightarrow> 's bar list \<Rightarrow> error + out_row list" where
  "vector_backtest cols cfg bars =
     (case sticky_membership cols (bt_score cfg bars) (cfg_q_in cfg) (cfg_q_out cfg)
             (Some (bt_update_mask cfg bars)) of
        Inl e \<Rightarrow> Inl e
      | Inr memb \<Rightarrow> Inr (bt_out cols cfg bars memb))"

text \<open>
  The membership frame of a run that passes the checks of \<open>sticky_membership\<close>, as a
  function of the bars.
\<close>

definition bt_sticky :: "'s list \<Rightarrow> config \<Rightarrow> 's bar list \<Rightarrow> 's frame" where
  "bt_sticky cols cfg bars =
     sticky_rows cols (bt_score cfg bars) (cfg_q_in cfg) (cfg_q_out cfg) (bt_update_mask cfg bars)"

section \<open>A small run\<close>

text \<open>
  Two symbols, three one-minute bars from 09:30 of one day. The close of A doubles at
  every bar, the close of B halves once and then stays; no other symbol has a value.
  The first minute is skipped,
  every bar is an update time, \<open>K = 1\<close>, \<open>q_in = q_out = 0.5\<close>, \<open>gross = max_w = 1\<close>,
  rate limit with a step of 100% of NAV, costs of 10 bps.
\<close>

definition frame_values :: "'s list \<Rightarrow> ('s \<Rightarrow> 'c) list \<Rightarrow> 'c list list" where
  "frame_values cols rows = map (\<lambda>r. map r cols) rows"

definition ex_cols :: "string list" where
  "ex_cols = [''A'', ''B'']"

definition ex_row :: "real \<Rightarrow> real \<Rightarrow> string row" where
  "ex_row a b = nan_row(''A'' := Some a, ''B'' := Some b)"

definition ex_bars :: "string bar list" where
  "ex_bars =
     [\<lparr>b_day = 0, b_minute = 570, b_open = ex_row 1 2, b_close = ex_row 1 2\<rparr>,
      \<lparr>b_day = 0, b_minute = 571, b_open = ex_row 1 2, b_close = ex_row 2 1\<rparr>,
      \<lparr>b_day = 0, b_minute = 572, b_open = ex_row 2 1, b_close = ex_row 4 1\<rparr>]"

definition ex_cfg :: config where
  "ex_cfg =
     \<lparr>cfg_gross = 1, cfg_max_w = 1, cfg_cost_bps = 10, cfg_skip_first_min = 1,
      cfg_skip_last_min = 0, cfg_exec_mode = Ratelimit, cfg_step_bps = 10000, cfg_band_bps = 0,
      cfg_grid_bps = 0, cfg_rebalance_every_n_bars = 1, cfg_signal_mode = Momentum, cfg_K = 1,
      cfg_q_in = 1 / 2, cfg_q_out = 1 / 2\<rparr>"

text \<open>The same run with a non-positive horizon and a cap above gross.\<close>

definition ex_cfg_invalid :: config where
  "ex_cfg_invalid = ex_cfg\<lparr>cfg_K := 0, cfg_max_w := 2\<rparr>"

text \<open>The same run with a negative horizon.\<close>

definition ex_cfg_negative :: config where
  "ex_cfg_negative = ex_cfg\<lparr>cfg_K := - 1\<rparr>"

text \<open>
  The same bars with a zero price in the last bar: both opens, the open of A only, the
  close of B.
\<close>

definition ex_bars_zero_opens :: "string bar list" where
  "ex_bars_zero_opens =
     [\<lparr>b_day = 0, b_minute = 570, b_open = ex_row 1 2, b_close = ex_row 1 2\<rparr>,
      \<lparr>b_day = 0, b_minute = 571, b_open = ex_row 1 2, b_close = ex_row 2 1\<rparr>,
      \<lparr>b_day = 0, b_minute = 572, b_open = ex_row 0 0, b_close = ex_row 4 1\<rparr>]"

definition ex_bars_zero_open :: "string bar list" where
  "ex_bars_zero_open =
     [\<lparr>b_day = 0, b_minute = 570, b_open = ex_row 1 2, b_close = ex_row 1 2\<rparr>,
      \<lparr>b_day = 0, b_minute = 571, b_open = ex_row 1 2, b_close = ex_row 2 1\<rparr>,
      \<lparr>b_day = 0, b_minute = 572, b_open = ex_row 0 1, b_close = ex_row 4 1\<rparr>]"

definition ex_bars_zero_close :: "string bar list" where
  "ex_bars_zero_close =
     [\<lparr>b_day = 0, b_minute = 570, b_open = ex_row 1 2, b_close = ex_row 1 2\<rparr>,
      \<lparr>b_day = 0, b_minute = 571, b_open = ex_row 1 2, b_close = ex_row 2 1\<rparr>,
      \<lparr>b_day = 0, b_minute = 572, b_open = ex_row 2 1, b_close = ex_row 4 0\<rparr>]"

section \<open>Frames without NaN\<close>

definition numbers :: "'s frame \<Rightarrow> bool" where
  "numbers rows \<longleftrightarrow> (\<forall>r\<in>set rows. \<forall>s. r s \<noteq> None)"

section \<open>Facts about the row loop\<close>

lemma length_scan_rows [simp]: "length (scan_rows f prev rows) = length rows"
  by (induction rows arbitrary: prev) simp_all

lemma scan_rows_nth:
  "t < length rows \<Longrightarrow>
   scan_rows f prev rows ! t =
     f (if t = 0 then prev else scan_rows f prev rows ! (t - 1)) (rows ! t)"
proof (induction rows arbitrary: prev t)
  case Nil
  then show ?case by simp
next
  case (Cons row rows)
  show ?case
  proof (cases t)
    case 0
    then show ?thesis by simp
  next
    case (Suc u)
    with Cons.prems have u: "u < length rows" by simp
    show ?thesis
      using Cons.IH [OF u, of "f prev row"] Suc
      by (cases u) simp_all
  qed
qed

lemma scan_rows_append:
  "scan_rows f prev (xs @ ys) =
     scan_rows f prev xs @ scan_rows f (foldl f prev xs) ys"
  by (induction xs arbitrary: prev) simp_all

text \<open>
  C5. Rate-limit policy: the executed row at bar \<open>t\<close> is, for every name, the previous
  executed weight (all-zero before the first bar) moved towards the target by the
  difference clipped to \<open>\<plusminus>step_bps/1e4\<close>, and the result clipped to \<open>\<plusminus>max_w\<close>.
\<close>

theorem rate_limit_time_bar:
  assumes "t < length w_target"
  shows "(rate_limit_time w_target step_bps max_w ! t) s =
           (let prev = (if t = 0 then Some 0
                        else (rate_limit_time w_target step_bps max_w ! (t - 1)) s)
            in clip (- max_w) max_w
                 (fadd prev (clip (- (step_bps / 10000)) (step_bps / 10000)
                                  (fsub ((w_target ! t) s) prev))))"
  using assms
  by (simp add: rate_limit_time_def scan_rows_nth rate_limit_step_def zero_row_def const_row_def Let_def)

theorem rate_limit_time_bar_witness:
  "(1::nat) < length [const_row 1 :: unit row, const_row 1]
   \<and> (rate_limit_time [const_row 1 :: unit row, const_row 1] 10 1 ! 1) () = Some (1 / 500)"
  using rate_limit_time_bar [of 1 "[const_row 1 :: unit row, const_row 1]" 10 1 "()"]
  by (simp add: rate_limit_time_def rate_limit_step_def zero_row_def const_row_def)

section \<open>Per-name cap and constant targets\<close>

lemma clip_bounds: "clip (- m) m c = Some v \<Longrightarrow> 0 \<le> m \<Longrightarrow> - m \<le> v \<and> v \<le> m"
  by (cases c) auto

lemma clip_abs_bounds: "clip lo hi c = Some v \<Longrightarrow> min lo hi \<le> v \<and> v \<le> max lo hi"
  by (cases c) auto

lemma clip_idem: "clip lo hi (clip lo hi c) = clip lo hi c"
  by (cases c) auto

lemma clip_ordered: "lo \<le> hi \<Longrightarrow> clip lo hi (Some x) = Some (min hi (max lo x))"
  by simp

lemma clip_zero: "clip (- m) m (Some 0) = Some 0"
  by auto

lemma rate_limit_step_cap:
  "rate_limit_step step max_w prev row s = Some v \<Longrightarrow> 0 \<le> max_w \<Longrightarrow> - max_w \<le> v \<and> v \<le> max_w"
  unfolding rate_limit_step_def Let_def by (rule clip_bounds)

lemma rate_limit_step_defined:
  "prev s \<noteq> None \<Longrightarrow> row s \<noteq> None \<Longrightarrow> rate_limit_step step max_w prev row s \<noteq> None"
  unfolding rate_limit_step_def Let_def by (cases "prev s"; cases "row s") auto

lemma scan_rows_defined:
  assumes step: "\<And>prev row. prev s \<noteq> None \<Longrightarrow> row s \<noteq> None \<Longrightarrow> f prev row s \<noteq> None"
  shows "prev s \<noteq> None \<Longrightarrow> t < length rows \<Longrightarrow> \<forall>u\<le>t. (rows ! u) s \<noteq> None \<Longrightarrow>
         (scan_rows f prev rows ! t) s \<noteq> None"
proof (induction rows arbitrary: prev t)
  case Nil
  then show ?case by simp
next
  case (Cons row rows)
  have r0: "row s \<noteq> None" using Cons.prems(3) by auto
  show ?case
  proof (cases t)
    case 0
    then show ?thesis using step [of prev row] Cons.prems(1) r0 by simp
  next
    case (Suc u)
    have "\<forall>k\<le>u. (rows ! k) s \<noteq> None"
      using Cons.prems(3) Suc by auto
    then show ?thesis
      using Cons.IH [of "f prev row" u] step [of prev row] Cons.prems(1) r0 Cons.prems(2) Suc by simp
  qed
qed

text \<open>
  C10. Per-name cap of the rate-limit policy: for \<open>max_w \<ge> 0\<close> and any step, every
  executed weight that is a number lies in \<open>[-max_w, max_w]\<close>, at every bar and for
  every name, and a name whose targets up to the bar are all numbers has a number as
  executed weight (nothing but a NaN target makes an entry NaN).
\<close>

theorem rate_limit_time_cap:
  assumes "0 \<le> max_w" and "t < length w_target"
  shows "(\<forall>v. (rate_limit_time w_target step_bps max_w ! t) s = Some v
             \<longrightarrow> - max_w \<le> v \<and> v \<le> max_w)
         \<and> ((\<forall>u\<le>t. (w_target ! u) s \<noteq> None)
             \<longrightarrow> (rate_limit_time w_target step_bps max_w ! t) s \<noteq> None)"
proof (intro conjI allI impI)
  fix v assume "(rate_limit_time w_target step_bps max_w ! t) s = Some v"
  then have "rate_limit_step (step_bps / 10000) max_w
               (if t = 0 then zero_row
                else scan_rows (rate_limit_step (step_bps / 10000) max_w) zero_row w_target ! (t - 1))
               (w_target ! t) s = Some v"
    using assms(2) by (simp add: rate_limit_time_def scan_rows_nth)
  from rate_limit_step_cap [OF this assms(1)]
  show "- max_w \<le> v" and "v \<le> max_w" by simp_all
next
  assume "\<forall>u\<le>t. (w_target ! u) s \<noteq> None"
  then show "(rate_limit_time w_target step_bps max_w ! t) s \<noteq> None"
    unfolding rate_limit_time_def Let_def
    using assms(2)
    by (intro scan_rows_defined rate_limit_step_defined) (simp_all add: zero_row_def const_row_def)
qed

theorem rate_limit_time_cap_witness:
  "(0::real) \<le> 1 \<and> (0::nat) < length [const_row 5 :: unit row]
   \<and> (rate_limit_time [const_row 5 :: unit row] 100000 1 ! 0) () = Some 1"
  using rate_limit_time_cap [of 1 0 "[const_row 5 :: unit row]" 100000 "()"]
  by (simp add: rate_limit_time_def rate_limit_step_def zero_row_def const_row_def)

lemma band_step_same:
  "row s = row' s \<Longrightarrow> band_step band (band_step band prev row') row s = band_step band prev row' s"
  unfolding band_step_def Let_def
  by (cases "row' s"; cases "prev s") (auto simp: fabs_def)

lemma rate_limit_step_reached:
  assumes "row s = rate_limit_step step max_w prev row' s"
  shows "rate_limit_step step max_w (rate_limit_step step max_w prev row') row s
           = rate_limit_step step max_w prev row' s"
proof (cases "rate_limit_step step max_w prev row' s")
  case None
  then show ?thesis using assms by (simp add: rate_limit_step_def [of _ _ "rate_limit_step step max_w prev row'"])
next
  case (Some v)
  have b: "min (- max_w) max_w \<le> v \<and> v \<le> max (- max_w) max_w"
    using Some unfolding rate_limit_step_def Let_def
    by (cases "fadd (prev s) (clip (- step) step (fsub (row' s) (prev s)))") auto
  show ?thesis
    using Some assms b
    by (simp add: rate_limit_step_def [of _ _ "rate_limit_step step max_w prev row'"])
qed

lemma diff_rows_length [simp]: "length (diff_rows k xs) = length xs"
  by (simp add: diff_rows_def)

lemma diff_rows_one_nth:
  "Suc t < length xs \<Longrightarrow> (diff_rows 1 xs ! Suc t) s = fsub ((xs ! Suc t) s) ((xs ! t) s)"
  by (simp add: diff_rows_def Let_def)

lemma diff_rows_one_first:
  "0 < length xs \<Longrightarrow> diff_rows 1 xs ! 0 = nan_row"
  by (simp add: diff_rows_def Let_def)

lemma scan_rows_Suc:
  "Suc t < length rows \<Longrightarrow>
   scan_rows f prev rows ! Suc t = f (scan_rows f prev rows ! t) (rows ! Suc t)"
  using scan_rows_nth [of "Suc t" rows f prev] by simp

lemma nansum_zero:
  assumes "\<forall>s\<in>set cols. r s = None \<or> r s = Some 0"
  shows "nansum cols r = 0"
proof -
  have "\<forall>s\<in>set cols. (case r s of None \<Rightarrow> 0 | Some x \<Rightarrow> x) = (0::real)"
    using assms by (auto split: option.splits)
  then have "sum_list (map (\<lambda>s. case r s of None \<Rightarrow> 0 | Some x \<Rightarrow> x) cols) = 0"
    by (induction cols) simp_all
  then show ?thesis by (simp add: nansum_def)
qed

text \<open>
  After the first row the turnover is the sum of the absolute changes of the weights;
  at the first row \<open>diff()\<close> is NaN and the sum is 0. The cost is the turnover times
  \<open>cost_bps / 1e4\<close> at every row.
\<close>

lemma turnover_of_Suc:
  "Suc t < length w \<Longrightarrow>
   turnover_of cols w ! Suc t = nansum cols (\<lambda>s. fabs (fsub ((w ! Suc t) s) ((w ! t) s)))"
  by (simp add: turnover_of_def diff_rows_one_nth)

lemma turnover_of_first: "0 < length w \<Longrightarrow> turnover_of cols w ! 0 = 0"
  by (simp add: turnover_of_def diff_rows_one_first nan_row_def fabs_def nansum_zero)

lemma costs_from_turnover_nth:
  "t < length w \<Longrightarrow>
   costs_from_turnover cols w cost_bps ! t = turnover_of cols w ! t * cost_bps / 10000"
  by (simp add: costs_from_turnover_def turnover_of_def)

lemma turnover_of_unchanged:
  assumes "Suc t < length w" and "w ! Suc t = w ! t"
  shows "turnover_of cols w ! Suc t = 0"
proof -
  have "\<And>s. fabs ((diff_rows 1 w ! Suc t) s) = None \<or> fabs ((diff_rows 1 w ! Suc t) s) = Some 0"
    using assms by (simp add: diff_rows_one_nth fabs_def) (case_tac "(w ! t) s"; simp)
  then show ?thesis
    using assms(1) by (simp add: turnover_of_def nansum_zero)
qed

text \<open>
  C8 (amended). If the target rows of two consecutive bars are identical, the band
  policy leaves the executed row unchanged and the turnover of the second bar is 0.
  The rate-limit policy does so when the executed row of the first bar has reached the
  target; otherwise it keeps stepping towards the target.
\<close>

theorem constant_target_no_turnover:
  assumes "Suc t < length w" and "w ! Suc t = w ! t"
  shows "apply_no_trade_band w band_bps ! Suc t = apply_no_trade_band w band_bps ! t
         \<and> turnover_of cols (apply_no_trade_band w band_bps) ! Suc t = 0
         \<and> (rate_limit_time w step_bps max_w ! t = w ! t \<longrightarrow>
              rate_limit_time w step_bps max_w ! Suc t = rate_limit_time w step_bps max_w ! t
              \<and> turnover_of cols (rate_limit_time w step_bps max_w) ! Suc t = 0)"
proof -
  let ?b = "band_step (band_bps / 10000)"
  let ?r = "rate_limit_step (step_bps / 10000) max_w"
  have t: "t < length w" using assms(1) by simp
  have band: "apply_no_trade_band w band_bps ! Suc t = apply_no_trade_band w band_bps ! t"
  proof (rule ext)
    fix s
    show "(apply_no_trade_band w band_bps ! Suc t) s = (apply_no_trade_band w band_bps ! t) s"
      unfolding apply_no_trade_band_def Let_def
      using assms t band_step_same [of "w ! Suc t" s "w ! t"]
      by (simp add: scan_rows_Suc scan_rows_nth [of t])
  qed
  have rl: "rate_limit_time w step_bps max_w ! Suc t = rate_limit_time w step_bps max_w ! t"
    if reached: "rate_limit_time w step_bps max_w ! t = w ! t"
  proof (rule ext)
    fix s
    have "(w ! Suc t) s = (scan_rows ?r zero_row w ! t) s"
      using reached assms(2) by (simp add: rate_limit_time_def)
    then show "(rate_limit_time w step_bps max_w ! Suc t) s = (rate_limit_time w step_bps max_w ! t) s"
      unfolding rate_limit_time_def Let_def
      using assms t rate_limit_step_reached [of "w ! Suc t" s]
      by (simp add: scan_rows_Suc scan_rows_nth [of t])
  qed
  show ?thesis
    using band rl assms(1)
    by (auto intro!: turnover_of_unchanged simp: apply_no_trade_band_def rate_limit_time_def)
qed

theorem constant_target_no_turnover_witness:
  "Suc 0 < length [const_row 1 :: unit row, const_row 1]
   \<and> [const_row 1 :: unit row, const_row 1] ! Suc 0 = [const_row 1 :: unit row, const_row 1] ! 0
   \<and> (apply_no_trade_band [const_row 1 :: unit row, const_row 1] 10 ! Suc 0) () = Some 1
   \<and> rate_limit_time [const_row 1 :: unit row, const_row 1] 10000 1 ! 0 = [const_row 1, const_row 1] ! 0
   \<and> turnover_of [()] (rate_limit_time [const_row 1 :: unit row, const_row 1] 10000 1) ! Suc 0 = 0"
  using constant_target_no_turnover [of 0 "[const_row 1 :: unit row, const_row 1]" 10 "[()]" 10000 1]
  by (auto simp add: apply_no_trade_band_def band_step_def rate_limit_time_def rate_limit_step_def
        zero_row_def const_row_def fabs_def)

text \<open>
  C8 as stated fails for the rate-limit policy: with the target constant at 1 and
  \<open>step_bps = 10\<close>, the executed weight is 0.001 at the first bar and 0.002 at the
  second, and the turnover of the second bar is 0.001.
\<close>

theorem rate_limit_constant_target_counterexample:
  "[const_row 1 :: unit row, const_row 1] ! 1 = [const_row 1 :: unit row, const_row 1] ! 0
   \<and> (rate_limit_time [const_row 1 :: unit row, const_row 1] 10 1 ! 0) () = Some (1 / 1000)
   \<and> (rate_limit_time [const_row 1 :: unit row, const_row 1] 10 1 ! 1) () = Some (1 / 500)
   \<and> turnover_of [()] (rate_limit_time [const_row 1 :: unit row, const_row 1] 10 1) ! 1 = 1 / 1000"
  by (simp add: rate_limit_time_def rate_limit_step_def zero_row_def const_row_def
        turnover_of_def diff_rows_def nansum_def fabs_def nan_row_def upt_rec_numeral)

section \<open>Causality: every stage is monotone for the prefix order\<close>

lemma prefix_take_eq: "prefix a b \<Longrightarrow> take (length a) b = a"
  by (auto simp: prefix_def)

lemma prefix_zip:
  assumes "prefix a a'" and "prefix b b'"
  shows "prefix (zip a b) (zip a' b')"
proof -
  obtain c d where a': "a' = a @ c" and b': "b' = b @ d"
    using assms by (auto simp: prefix_def)
  let ?n = "min (length a) (length b)"
  have "take ?n (zip a' b') = zip (take ?n a') (take ?n b')"
    by (simp add: take_zip)
  also have "\<dots> = zip (take ?n a) (take ?n b)"
    by (simp add: a' b')
  also have "\<dots> = take ?n (zip a b)"
    by (simp add: take_zip)
  also have "\<dots> = zip a b"
    by simp
  finally have "zip a b = take ?n (zip a' b')" by simp
  then show ?thesis
    by (metis take_is_prefix)
qed

lemma prefix_scan_rows:
  "prefix a b \<Longrightarrow> prefix (scan_rows f s a) (scan_rows f s b)"
  by (auto simp: prefix_def scan_rows_append)

lemma prefix_loc_mask:
  "prefix m m' \<Longrightarrow> prefix x x' \<Longrightarrow> prefix (loc_mask m x) (loc_mask m' x')"
  unfolding loc_mask_def by (intro map_mono_prefix filter_mono_prefix prefix_zip)

lemma prefix_diff_rows:
  assumes "0 \<le> k" and "prefix a b"
  shows "prefix (diff_rows k a) (diff_rows k b)"
proof -
  obtain c where b: "b = a @ c"
    using assms(2) by (auto simp: prefix_def)
  have "take (length a) (diff_rows k (a @ c)) = diff_rows k a"
  proof (rule nth_equalityI)
    show "length (take (length a) (diff_rows k (a @ c))) = length (diff_rows k a)"
      by (simp add: diff_rows_def)
  next
    fix i assume "i < length (take (length a) (diff_rows k (a @ c)))"
    then have i: "i < length a" by (simp add: diff_rows_def)
    have j: "nat (int i - k) < length a" if "0 \<le> int i - k"
      using i assms(1) that by linarith
    show "take (length a) (diff_rows k (a @ c)) ! i = diff_rows k a ! i"
      using i assms(1) j
      by (auto simp: diff_rows_def Let_def nth_append)
  qed
  then show ?thesis
    unfolding b by (metis take_is_prefix)
qed

lemma prefix_xdiff_rows:
  assumes "0 \<le> k" and "prefix a b"
  shows "prefix (xdiff_rows k a) (xdiff_rows k b)"
proof -
  obtain c where b: "b = a @ c"
    using assms(2) by (auto simp: prefix_def)
  have "take (length a) (xdiff_rows k (a @ c)) = xdiff_rows k a"
  proof (rule nth_equalityI)
    show "length (take (length a) (xdiff_rows k (a @ c))) = length (xdiff_rows k a)"
      by (simp add: xdiff_rows_def)
  next
    fix i assume "i < length (take (length a) (xdiff_rows k (a @ c)))"
    then have i: "i < length a" by (simp add: xdiff_rows_def)
    have j: "nat (int i - k) < length a" if "0 \<le> int i - k"
      using i assms(1) that by linarith
    show "take (length a) (xdiff_rows k (a @ c)) ! i = xdiff_rows k a ! i"
      using i assms(1) j
      by (auto simp: xdiff_rows_def Let_def nth_append)
  qed
  then show ?thesis
    unfolding b by (metis take_is_prefix)
qed

lemma prefix_shift_rows:
  assumes "prefix a b"
  shows "prefix (shift_rows a) (shift_rows b)"
proof -
  obtain c where b: "b = a @ c"
    using assms by (auto simp: prefix_def)
  have "take (length a) (x # a @ c) = take (length a) (x # a)" for x :: "'a row"
    by (induction a arbitrary: x) simp_all
  then have "take (length a) (shift_rows (a @ c)) = shift_rows a"
    by (simp add: shift_rows_def min_def)
  then show ?thesis
    unfolding b by (metis take_is_prefix)
qed

lemma prefix_bar_num:
  assumes "prefix a b"
  shows "prefix (bar_num a) (bar_num b)"
proof -
  obtain c where b: "b = a @ c"
    using assms by (auto simp: prefix_def)
  have "bar_num (a @ c) = bar_num a @ map (\<lambda>i. length (filter (\<lambda>d. d = (a @ c) ! i) (take i (a @ c)))) [length a..<length a + length c]"
    using upt_add_eq_append [of 0 "length a" "length c"]
    by (simp add: bar_num_def nth_append)
  then show ?thesis
    unfolding b by simp
qed

lemmas prefix_intros = map_mono_prefix filter_mono_prefix prefix_zip prefix_scan_rows
  prefix_loc_mask prefix_shift_rows prefix_bar_num

lemma prefix_bt_mask: "prefix xs ys \<Longrightarrow> prefix (bt_mask cfg xs) (bt_mask cfg ys)"
  unfolding bt_mask_def by (intro prefix_intros)

lemma prefix_bt_update_mask:
  "prefix xs ys \<Longrightarrow> prefix (bt_update_mask cfg xs) (bt_update_mask cfg ys)"
  unfolding bt_update_mask_def by (intro prefix_intros)

lemma prefix_bt_score:
  "0 \<le> cfg_K cfg \<Longrightarrow> prefix xs ys \<Longrightarrow> prefix (bt_score cfg xs) (bt_score cfg ys)"
  unfolding bt_score_def Let_def
  by (auto intro!: prefix_intros prefix_xdiff_rows)

lemma prefix_ffill: "prefix a b \<Longrightarrow> prefix (ffill a) (ffill b)"
  unfolding ffill_def by (intro prefix_intros)

lemma prefix_sticky_rows:
  "prefix sc sc' \<Longrightarrow> prefix um um' \<Longrightarrow>
   prefix (sticky_rows cols sc q_in q_out um) (sticky_rows cols sc' q_in q_out um')"
  unfolding sticky_rows_def Let_def
  by (intro prefix_intros prefix_ffill)

lemma prefix_bt_sticky:
  "0 \<le> cfg_K cfg \<Longrightarrow> prefix xs ys \<Longrightarrow>
   prefix (bt_sticky cols cfg xs) (bt_sticky cols cfg ys)"
  unfolding bt_sticky_def
  by (intro prefix_sticky_rows prefix_bt_score prefix_bt_update_mask)

lemma prefix_bt_w_target:
  "prefix xs ys \<Longrightarrow> prefix memb memb' \<Longrightarrow>
   prefix (bt_w_target cols cfg xs memb) (bt_w_target cols cfg ys memb')"
  unfolding bt_w_target_def bt_memb_def Let_def
  by (intro prefix_intros prefix_ffill prefix_bt_mask prefix_bt_update_mask)

lemma prefix_rate_limit_time:
  "prefix a b \<Longrightarrow> prefix (rate_limit_time a step_bps max_w) (rate_limit_time b step_bps max_w)"
  unfolding rate_limit_time_def Let_def by (intro prefix_intros)

lemma prefix_apply_no_trade_band:
  "prefix a b \<Longrightarrow> prefix (apply_no_trade_band a band_bps) (apply_no_trade_band b band_bps)"
  unfolding apply_no_trade_band_def Let_def by (intro prefix_intros)

lemma prefix_bt_w_exec:
  assumes "prefix xs ys" and "prefix memb memb'"
  shows "prefix (bt_w_exec cols cfg xs memb) (bt_w_exec cols cfg ys memb')"
proof -
  note t = prefix_bt_w_target [OF assms, of cols cfg]
  show ?thesis
    unfolding bt_w_exec_def Let_def
    by (cases "cfg_exec_mode cfg")
       (auto intro!: prefix_intros prefix_bt_mask prefix_rate_limit_time
          prefix_apply_no_trade_band t assms(1))
qed

lemma prefix_turnover_of:
  "prefix a b \<Longrightarrow> prefix (turnover_of cols a) (turnover_of cols b)"
  unfolding turnover_of_def by (intro prefix_intros prefix_diff_rows) simp_all

lemma prefix_costs_from_turnover:
  "prefix a b \<Longrightarrow> prefix (costs_from_turnover cols a c) (costs_from_turnover cols b c)"
  unfolding costs_from_turnover_def Let_def by (intro prefix_intros prefix_turnover_of)

lemma prefix_bt_rows:
  assumes "prefix xs ys" and "prefix memb memb'"
  shows "prefix (bt_rows cols cfg xs memb) (bt_rows cols cfg ys memb')"
  unfolding bt_rows_def bt_rets_oc_def bt_w_lag_def Let_def
  by (intro prefix_intros prefix_bt_mask prefix_turnover_of prefix_costs_from_turnover
        prefix_bt_w_exec assms)

lemma prefix_bt_out:
  assumes "prefix xs ys" and "prefix memb memb'"
  shows "prefix (bt_out cols cfg xs memb) (bt_out cols cfg ys memb')"
  unfolding bt_out_def dropna_def
  by (intro filter_mono_prefix prefix_bt_rows assms)

section \<open>Lengths of the stages\<close>

lemma length_bt_mask [simp]: "length (bt_mask cfg bars) = length bars"
  by (simp add: bt_mask_def)

lemma length_bt_update_mask [simp]: "length (bt_update_mask cfg bars) = length bars"
  by (simp add: bt_update_mask_def bar_num_def)

lemma length_bt_score [simp]: "length (bt_score cfg bars) = length bars"
  by (simp add: bt_score_def xdiff_rows_def Let_def)

lemma length_ffill [simp]: "length (ffill rows) = length rows"
  by (simp add: ffill_def)

lemma length_sticky_rows [simp]:
  "length (sticky_rows cols score q_in q_out um) = min (length um) (length score)"
  by (simp add: sticky_rows_def Let_def)

lemma length_bt_sticky [simp]: "length (bt_sticky cols cfg bars) = length bars"
  by (simp add: bt_sticky_def)

lemma length_loc_mask:
  "length msk = length xs \<Longrightarrow> length (loc_mask msk xs) = length (filter (\<lambda>b. b) msk)"
  unfolding loc_mask_def
  by (induction msk xs rule: list_induct2) simp_all

lemma length_bt_w_target:
  "length memb = length bars \<Longrightarrow>
   length (bt_w_target cols cfg bars memb) = length (loc_mask (bt_mask cfg bars) bars)"
  by (simp add: bt_w_target_def bt_memb_def Let_def length_loc_mask)

lemma length_rate_limit_time [simp]: "length (rate_limit_time w step_bps max_w) = length w"
  by (simp add: rate_limit_time_def)

lemma length_apply_no_trade_band [simp]: "length (apply_no_trade_band w band_bps) = length w"
  by (simp add: apply_no_trade_band_def)

lemma length_bt_w_exec:
  "length memb = length bars \<Longrightarrow>
   length (bt_w_exec cols cfg bars memb) = length (loc_mask (bt_mask cfg bars) bars)"
  by (cases "cfg_exec_mode cfg")
     (simp_all add: bt_w_exec_def Let_def length_bt_w_target length_loc_mask)

lemma length_turnover_of [simp]: "length (turnover_of cols w) = length w"
  by (simp add: turnover_of_def diff_rows_def)

lemma length_costs_from_turnover [simp]: "length (costs_from_turnover cols w c) = length w"
  by (simp add: costs_from_turnover_def)

lemma length_bt_w_lag [simp]: "length (bt_w_lag w) = length w"
  by (simp add: bt_w_lag_def shift_rows_def)

lemma length_bt_rets_oc:
  "length (bt_rets_oc cfg bars) = length (loc_mask (bt_mask cfg bars) bars)"
  by (simp add: bt_rets_oc_def length_loc_mask)

lemma length_bt_rows:
  "length memb = length bars \<Longrightarrow>
   length (bt_rows cols cfg bars memb) = length (loc_mask (bt_mask cfg bars) bars)"
  by (simp add: bt_rows_def Let_def length_bt_rets_oc length_bt_w_exec)

lemma vector_backtest_cases:
  "vector_backtest cols cfg bars =
     (if cfg_q_out cfg < cfg_q_in cfg then Inl AssertionError
      else if bars = [] then Inl IndexError
      else Inr (bt_out cols cfg bars (bt_sticky cols cfg bars)))"
proof -
  have "bt_score cfg bars = [] \<longleftrightarrow> bars = []"
    using length_bt_score [of cfg bars] by (metis length_0_conv)
  then show ?thesis
    by (simp add: vector_backtest_def sticky_membership_def bt_sticky_def not_le)
qed

section \<open>Columns without bars\<close>

lemma nansum_filter:
  assumes "\<forall>e\<in>E. f e = None \<or> f e = Some 0"
  shows "nansum (filter (\<lambda>c. c \<notin> E) cols) f = nansum cols f"
  using assms unfolding nansum_def by (induction cols) auto

lemma takeWhile_filter:
  "Q s \<Longrightarrow> takeWhile (\<lambda>c. c \<noteq> s) (filter Q xs) = filter Q (takeWhile (\<lambda>c. c \<noteq> s) xs)"
  by (induction xs) auto

lemma filter_filter_imp:
  "(\<And>c. P c \<Longrightarrow> Q c) \<Longrightarrow> filter P (filter Q xs) = filter P xs"
  by (induction xs) auto

lemma xnansum_filter:
  assumes "\<forall>e\<in>E. f e = NaN"
  shows "xnansum (filter (\<lambda>c. c \<notin> E) cols) f = xnansum cols f"
proof -
  let ?F = "filter (\<lambda>c. c \<notin> E) cols"
  have mem: "v \<in> set (map f ?F) \<longleftrightarrow> v \<in> set (map f cols)" if "v \<noteq> NaN" for v
    using assms that by auto
  have "sum_list (map (\<lambda>v. case v of Fin x \<Rightarrow> x | _ \<Rightarrow> 0) (map f ?F))
          = sum_list (map (\<lambda>v. case v of Fin x \<Rightarrow> x | _ \<Rightarrow> 0) (map f cols))"
    using assms by (induction cols) auto
  then show ?thesis
    unfolding xnansum_def Let_def
    using mem [of PInf] mem [of NInf] by simp
qed

lemma rank_pct_filter:
  assumes "\<forall>e\<in>E. r e = NaN"
  shows "rank_pct (filter (\<lambda>c. c \<notin> E) cols) r = rank_pct cols r"
proof (rule ext)
  fix s
  let ?Q = "\<lambda>c. c \<notin> E"
  have n: "filter (\<lambda>c. r c \<noteq> NaN) (filter ?Q cols) = filter (\<lambda>c. r c \<noteq> NaN) cols"
    using assms by (intro filter_filter_imp) auto
  show "rank_pct (filter ?Q cols) r s = rank_pct cols r s"
  proof (cases "r s = NaN")
    case True
    then show ?thesis by (simp add: rank_pct_def rank_first_def)
  next
    case False
    then have s: "?Q s" using assms by auto
    have a: "filter (\<lambda>c. xlt (r c) (r s)) (filter ?Q cols) = filter (\<lambda>c. xlt (r c) (r s)) cols"
      using assms by (intro filter_filter_imp) auto
    have b: "filter (\<lambda>c. r c = r s) (takeWhile (\<lambda>c. c \<noteq> s) (filter ?Q cols))
               = filter (\<lambda>c. r c = r s) (takeWhile (\<lambda>c. c \<noteq> s) cols)"
      unfolding takeWhile_filter [of ?Q, OF s]
      using assms False by (intro filter_filter_imp) auto
    show ?thesis
      by (simp only: rank_pct_def rank_first_def a b n)
  qed
qed

lemma scan_rows_cong:
  "(\<And>st x. x \<in> set xs \<Longrightarrow> f st x = g st x) \<Longrightarrow> scan_rows f s xs = scan_rows g s xs"
  by (induction xs arbitrary: s) simp_all

lemma scan_rows_invariant:
  assumes "P s" and "\<And>st x. P st \<Longrightarrow> x \<in> set xs \<Longrightarrow> P (f st x)"
  shows "\<forall>r\<in>set (scan_rows f s xs). P r"
  using assms by (induction xs arbitrary: s) auto

lemma bt_score_no_bars:
  assumes "\<forall>b\<in>set bars. b_close b e = None" and "r \<in> set (bt_score cfg bars)"
  shows "r e = NaN"
proof -
  have "\<forall>r\<in>set (xdiff_rows (cfg_K cfg) (map (\<lambda>r s. flog (r s)) (map b_close bars))). r e = NaN"
    using assms(1) by (auto simp: xdiff_rows_def Let_def xnan_row_def)
  then show ?thesis
    using assms(2) by (auto simp: bt_score_def Let_def split: if_splits)
qed

lemma snd_in_zip: "x \<in> set (zip a b) \<Longrightarrow> snd x \<in> set b"
  using set_zip_rightD [of "fst x" "snd x" a b] by simp

lemma sticky_rows_filter:
  assumes "\<forall>r\<in>set score. \<forall>e\<in>E. r e = NaN"
  shows "sticky_rows (filter (\<lambda>c. c \<notin> E) cols) score q_in q_out um
           = sticky_rows cols score q_in q_out um"
proof -
  have "scan_rows (sticky_prev (filter (\<lambda>c. c \<notin> E) cols) q_in q_out) zero_row (zip um score)
          = scan_rows (sticky_prev cols q_in q_out) zero_row (zip um score)"
  proof (rule scan_rows_cong)
    fix st x assume "x \<in> set (zip um score)"
    then have "snd x \<in> set score"
      by (rule snd_in_zip)
    then have "\<forall>e\<in>E. snd x e = NaN"
      using assms by simp
    then have "rank_pct (filter (\<lambda>c. c \<notin> E) cols) (snd x) = rank_pct cols (snd x)"
      by (rule rank_pct_filter)
    then show "sticky_prev (filter (\<lambda>c. c \<notin> E) cols) q_in q_out st x
                 = sticky_prev cols q_in q_out st x"
      by (simp add: sticky_prev_def)
  qed
  then show ?thesis
    by (simp add: sticky_rows_def)
qed

lemma sticky_rows_no_bars:
  assumes "\<forall>r\<in>set score. r e = NaN"
  shows "\<forall>r\<in>set (sticky_rows cols score q_in q_out um). r e = Some 0"
proof -
  let ?prevs = "scan_rows (sticky_prev cols q_in q_out) zero_row (zip um score)"
  let ?m = "map (\<lambda>r s. replace_zero_nan (r s))
              (map (\<lambda>(u, cur). if u then cur else zero_row) (zip um ?prevs))"
  have prevs: "\<forall>r\<in>set ?prevs. r e = Some 0"
  proof (rule scan_rows_invariant)
    show "zero_row e = Some 0" by (simp add: zero_row_def const_row_def)
  next
    fix st x assume st: "st e = Some (0::real)" and "x \<in> set (zip um score)"
    then have "snd x \<in> set score"
      by (intro snd_in_zip)
    then have "snd x e = NaN"
      using assms by simp
    then have "rank_pct cols (snd x) e = None"
      by (simp add: rank_pct_def rank_first_def)
    then show "sticky_prev cols q_in q_out st x e = Some 0"
      using st by (simp add: sticky_prev_def sticky_step_def)
  qed
  have m: "\<forall>r\<in>set ?m. r e = None"
  proof -
    have "replace_zero_nan ((case x of (u, cur) \<Rightarrow> if u then cur else zero_row) e) = None"
      if x: "x \<in> set (zip um ?prevs)" for x
    proof -
      have "snd x e = Some 0"
        using prevs snd_in_zip [OF x] by simp
      then show ?thesis
        by (cases x) (simp add: replace_zero_nan_def zero_row_def const_row_def)
    qed
    then show ?thesis by simp
  qed
  have "\<forall>r\<in>set (ffill ?m). r e = None"
    unfolding ffill_def
  proof (rule scan_rows_invariant)
    show "nan_row e = None" by (simp add: nan_row_def)
  next
    fix st :: "'a row" and x assume st: "st e = None" and x: "x \<in> set ?m"
    from m x have "x e = None" by blast
    with st show "ffill_step st x e = None"
      by (simp add: ffill_step_def)
  qed
  then show ?thesis
    by (auto simp: sticky_rows_def Let_def)
qed

lemma set_loc_mask: "x \<in> set (loc_mask msk xs) \<Longrightarrow> x \<in> set xs"
  unfolding loc_mask_def using snd_in_zip [of _ msk xs] by auto

lemma sizing_no_bars:
  "r e = Some 0 \<Longrightarrow>
   fmul (fdiv (fillna 0 (r e)) (Some tot)) (Some g) = None
   \<or> fmul (fdiv (fillna 0 (r e)) (Some tot)) (Some g) = Some 0"
  by simp

lemma bt_w_target_filter:
  assumes "\<forall>r\<in>set memb. \<forall>e\<in>E. r e = Some 0"
  shows "bt_w_target (filter (\<lambda>c. c \<notin> E) cols) cfg bars memb = bt_w_target cols cfg bars memb"
proof -
  have tot: "nansum (filter (\<lambda>c. c \<notin> E) cols) (\<lambda>s. fabs (r s)) = nansum cols (\<lambda>s. fabs (r s))"
    if "r \<in> set (bt_memb cfg bars memb)" for r
  proof (rule nansum_filter)
    have "r \<in> set memb"
      using that unfolding bt_memb_def by (rule set_loc_mask)
    then have "\<forall>e\<in>E. r e = Some 0"
      using assms by blast
    then show "\<forall>e\<in>E. fabs (r e) = None \<or> fabs (r e) = Some 0"
      by (auto simp: fabs_def)
  qed
  have "map (\<lambda>r. let tot = nansum (filter (\<lambda>c. c \<notin> E) cols) (\<lambda>s. fabs (r s))
                        in (\<lambda>s. fmul (fdiv (fillna 0 (r s)) (Some tot)) (Some (cfg_gross cfg))))
                 (bt_memb cfg bars memb)
           = map (\<lambda>r. let tot = nansum cols (\<lambda>s. fabs (r s))
                        in (\<lambda>s. fmul (fdiv (fillna 0 (r s)) (Some tot)) (Some (cfg_gross cfg))))
                 (bt_memb cfg bars memb)"
    by (rule map_cong [OF refl]) (simp only: tot)
  then show ?thesis
    by (simp only: bt_w_target_def Let_def)
qed

lemma bt_w_target_no_bars:
  assumes "\<forall>r\<in>set memb. r e = Some 0"
  shows "\<forall>r\<in>set (bt_w_target cols cfg bars memb). r e = Some 0"
proof -
  let ?w0 = "map (\<lambda>r. let tot = nansum cols (\<lambda>s. fabs (r s))
                        in (\<lambda>s. fmul (fdiv (fillna 0 (r s)) (Some tot)) (Some (cfg_gross cfg))))
                 (bt_memb cfg bars memb)"
  let ?w1 = "map (\<lambda>(u, r). if u then r else nan_row)
               (zip (loc_mask (bt_mask cfg bars) (bt_update_mask cfg bars)) ?w0)"
  let ?Z = "\<lambda>r :: 'a row. r e = None \<or> r e = Some 0"
  have w0: "\<forall>r\<in>set ?w0. ?Z r"
  proof -
    have "?Z (let tot = nansum cols (\<lambda>s. fabs (r s))
              in (\<lambda>s. fmul (fdiv (fillna 0 (r s)) (Some tot)) (Some (cfg_gross cfg))))"
      if "r \<in> set (bt_memb cfg bars memb)" for r
    proof -
      have "r \<in> set memb"
        using that unfolding bt_memb_def by (rule set_loc_mask)
      then have "r e = Some 0" using assms by blast
      then show ?thesis
        unfolding Let_def by (rule sizing_no_bars)
    qed
    then show ?thesis by simp
  qed
  have w1: "\<forall>r\<in>set ?w1. ?Z r"
  proof -
    have "?Z (case x of (u, r) \<Rightarrow> if u then r else nan_row)"
      if x: "x \<in> set (zip (loc_mask (bt_mask cfg bars) (bt_update_mask cfg bars)) ?w0)" for x
    proof -
      from w0 snd_in_zip [OF x] have "?Z (snd x)" by blast
      then show ?thesis by (cases x) (auto simp: nan_row_def)
    qed
    then show ?thesis by simp
  qed
  have "\<forall>r\<in>set (ffill ?w1). ?Z r"
    unfolding ffill_def
  proof (rule scan_rows_invariant)
    show "?Z nan_row" by (simp add: nan_row_def)
  next
    fix st :: "'a row" and x assume st: "?Z st" and x: "x \<in> set ?w1"
    from w1 x have "?Z x" by blast
    with st show "?Z (ffill_step st x)"
      by (auto simp: ffill_step_def)
  qed
  then have "\<forall>r\<in>set (ffill ?w1). clip (- cfg_max_w cfg) (cfg_max_w cfg) (fillna 0 (r e)) = Some 0"
    by auto
  then show ?thesis
    by (simp add: bt_w_target_def Let_def)
qed

lemma round_half_even_zero: "round_half_even 0 = 0"
  by (simp add: round_half_even_def)

lemma bt_w_exec_no_bars:
  assumes "\<forall>r\<in>set memb. r e = Some 0"
  shows "\<forall>r\<in>set (bt_w_exec cols cfg bars memb). r e = Some 0"
proof -
  let ?P = "\<lambda>r :: 'a row. r e = Some 0"
  let ?t = "bt_w_target cols cfg bars memb"
  have t: "\<forall>r\<in>set ?t. ?P r"
    by (rule bt_w_target_no_bars [OF assms])
  have band: "\<forall>r\<in>set (apply_no_trade_band w b). ?P r" if w: "\<forall>r\<in>set w. ?P r" for w b
    unfolding apply_no_trade_band_def Let_def
  proof (rule scan_rows_invariant)
    show "?P zero_row" by (simp add: zero_row_def const_row_def)
  next
    fix st :: "'a row" and x assume st: "?P st" and x: "x \<in> set w"
    from w x have "?P x" by blast
    with st show "?P (band_step (b / 10000) st x)"
      by (simp add: band_step_def Let_def)
  qed
  have rl: "\<forall>r\<in>set (rate_limit_time w st mw). ?P r" if w: "\<forall>r\<in>set w. ?P r" for w st mw
    unfolding rate_limit_time_def Let_def
  proof (rule scan_rows_invariant)
    show "?P zero_row" by (simp add: zero_row_def const_row_def)
  next
    fix p :: "'a row" and x assume p: "?P p" and x: "x \<in> set w"
    from w x have "?P x" by blast
    with p show "?P (rate_limit_step (st / 10000) mw p x)"
      by (simp add: rate_limit_step_def Let_def)
  qed
  have grid: "\<forall>r\<in>set (map (\<lambda>r s. map_option (\<lambda>x. round_half_even (x / g) * g) (r s)) w). ?P r"
    if w: "\<forall>r\<in>set w. ?P r" for w g
    using w by (auto simp: round_half_even_zero)
  define w where "w =
      (case cfg_exec_mode cfg of
         Ratelimit \<Rightarrow>
           (let w_pre = (if cfg_band_bps cfg > 0
                         then apply_no_trade_band ?t (cfg_band_bps cfg)
                         else ?t)
            in rate_limit_time w_pre (cfg_step_bps cfg) (cfg_max_w cfg))
       | Band \<Rightarrow> apply_no_trade_band ?t (cfg_band_bps cfg)
       | Grid \<Rightarrow>
           (let g = max (1 / 100000000) (cfg_grid_bps cfg / 10000)
            in map (\<lambda>r s. map_option (\<lambda>x. round_half_even (x / g) * g) (r s)) ?t)
       | OtherExec \<Rightarrow> ?t)"
  have pol: "\<forall>r\<in>set w. ?P r"
  proof (cases "cfg_exec_mode cfg")
    case Ratelimit
    then show ?thesis
      unfolding w_def using rl [OF band [OF t]] rl [OF t] by (simp add: Let_def)
  next
    case Band
    then show ?thesis unfolding w_def using band [OF t] by simp
  next
    case Grid
    then show ?thesis unfolding w_def using grid [OF t] by (simp only: Let_def exec_mode.case)
  next
    case OtherExec
    then show ?thesis unfolding w_def using t by simp
  qed
  have ex: "bt_w_exec cols cfg bars memb
      = map (\<lambda>(fl, r). if fl then zero_row else r)
          (zip (loc_mask (bt_mask cfg bars) (map (\<lambda>b. 960 - b_minute b < 10) bars)) w)"
    unfolding bt_w_exec_def w_def Let_def ..
  have "\<forall>x\<in>set (zip fl w). ?P (case x of (fl, r) \<Rightarrow> if fl then zero_row else r)" for fl
  proof
    fix x assume x: "x \<in> set (zip fl w)"
    from pol snd_in_zip [OF x] have "?P (snd x)" by blast
    then show "?P (case x of (fl, r) \<Rightarrow> if fl then zero_row else r)"
      by (cases x) (simp add: zero_row_def const_row_def)
  qed
  then show ?thesis
    unfolding ex by simp
qed

lemma turnover_of_filter:
  assumes "\<forall>r\<in>set w. \<forall>e\<in>E. r e = Some 0"
  shows "turnover_of (filter (\<lambda>c. c \<notin> E) cols) w = turnover_of cols w"
proof -
  have d: "\<forall>e\<in>E. fabs (r e) = None \<or> fabs (r e) = Some 0" if "r \<in> set (diff_rows 1 w)" for r
  proof
    fix e assume e: "e \<in> E"
    from that obtain i where "i < length (diff_rows 1 w)" and r: "r = diff_rows 1 w ! i"
      unfolding in_set_conv_nth by blast
    then have i: "i < length w" by simp
    show "fabs (r e) = None \<or> fabs (r e) = Some 0"
    proof (cases i)
      case 0
      then show ?thesis
        using i by (simp add: r diff_rows_one_first nan_row_def fabs_def)
    next
      case (Suc k)
      then have "w ! Suc k \<in> set w" "w ! k \<in> set w"
        using i by simp_all
      then have "(w ! Suc k) e = Some 0" "(w ! k) e = Some 0"
        using assms e by blast+
      then show ?thesis
        using i Suc by (simp add: r diff_rows_one_nth fabs_def)
    qed
  qed
  show ?thesis
    unfolding turnover_of_def
    by (rule map_cong [OF refl]) (rule nansum_filter, rule d)
qed

lemma bt_rows_filter:
  assumes "\<forall>r\<in>set memb. \<forall>e\<in>E. r e = Some 0"
    and "\<forall>b\<in>set bars. \<forall>e\<in>E. b_close b e = None"
  shows "bt_rows (filter (\<lambda>c. c \<notin> E) cols) cfg bars memb = bt_rows cols cfg bars memb"
proof -
  let ?F = "filter (\<lambda>c. c \<notin> E) cols"
  have w: "bt_w_exec ?F cfg bars memb = bt_w_exec cols cfg bars memb"
    by (simp only: bt_w_exec_def bt_w_target_filter [OF assms(1)])
  have w0: "\<forall>r\<in>set (bt_w_exec cols cfg bars memb). \<forall>e\<in>E. r e = Some 0"
  proof (intro ballI)
    fix r e assume r: "r \<in> set (bt_w_exec cols cfg bars memb)" and e: "e \<in> E"
    have "\<forall>r\<in>set memb. r e = Some 0" using assms(1) e by blast
    from bt_w_exec_no_bars [OF this, of cols cfg bars] r show "r e = Some 0" by blast
  qed
  have rets: "r e = NaN" if "r \<in> set (bt_rets_oc cfg bars)" "e \<in> E" for r e
  proof -
    have "r \<in> set (map (\<lambda>b s. xsub (xdiv (b_close b s) (b_open b s)) (Fin 1)) bars)"
      using that(1) unfolding bt_rets_oc_def by (rule set_loc_mask)
    then obtain b where "b \<in> set bars"
      and "r = (\<lambda>s. xsub (xdiv (b_close b s) (b_open b s)) (Fin 1))"
      by auto
    then show ?thesis
      using assms(2) that(2) by simp
  qed
  have xmul_nan: "xmul a NaN = NaN" for a
    by (cases a) simp_all
  have pnl: "map (\<lambda>(w, r). xnansum ?F (\<lambda>s. xmul (w s) (r s))) (zip wl (bt_rets_oc cfg bars))
           = map (\<lambda>(w, r). xnansum cols (\<lambda>s. xmul (w s) (r s))) (zip wl (bt_rets_oc cfg bars))" for wl
  proof (rule map_cong [OF refl])
    fix x assume "x \<in> set (zip wl (bt_rets_oc cfg bars))"
    then have "snd x \<in> set (bt_rets_oc cfg bars)"
      by (rule snd_in_zip)
    then have "\<forall>e\<in>E. snd x e = NaN"
      using rets by blast
    then have "\<forall>e\<in>E. xmul (fst x e) (snd x e) = NaN"
      by (simp add: xmul_nan)
    then have "xnansum ?F (\<lambda>s. xmul (fst x s) (snd x s)) = xnansum cols (\<lambda>s. xmul (fst x s) (snd x s))"
      by (rule xnansum_filter)
    then show "(case x of (w, r) \<Rightarrow> xnansum ?F (\<lambda>s. xmul (w s) (r s)))
             = (case x of (w, r) \<Rightarrow> xnansum cols (\<lambda>s. xmul (w s) (r s)))"
      by (cases x) simp
  qed
  show ?thesis
    by (simp only: bt_rows_def Let_def w pnl costs_from_turnover_def turnover_of_filter [OF w0])
qed

lemma bt_sticky_filter:
  assumes "\<forall>b\<in>set bars. \<forall>e\<in>E. b_close b e = None"
  shows "bt_sticky (filter (\<lambda>c. c \<notin> E) cols) cfg bars = bt_sticky cols cfg bars"
proof -
  have "\<forall>r\<in>set (bt_score cfg bars). \<forall>e\<in>E. r e = NaN"
  proof (intro ballI)
    fix r e assume "r \<in> set (bt_score cfg bars)" and "e \<in> E"
    then have "r \<in> set (bt_score cfg bars)" by simp
    moreover have "\<forall>b\<in>set bars. b_close b e = None"
      using assms \<open>e \<in> E\<close> by blast
    ultimately show "r e = NaN"
      using bt_score_no_bars [of bars e r cfg] by blast
  qed
  then show ?thesis
    unfolding bt_sticky_def by (rule sticky_rows_filter)
qed

lemma bt_sticky_no_bars:
  assumes "\<forall>b\<in>set bars. \<forall>e\<in>E. b_close b e = None"
  shows "\<forall>r\<in>set (bt_sticky cols cfg bars). \<forall>e\<in>E. r e = Some 0"
proof (intro ballI)
  fix r e assume r: "r \<in> set (bt_sticky cols cfg bars)" and e: "e \<in> E"
  have "\<forall>b\<in>set bars. b_close b e = None"
    using assms e by blast
  then have "\<forall>r\<in>set (bt_score cfg bars). r e = NaN"
    using bt_score_no_bars [of bars e _ cfg] by blast
  from sticky_rows_no_bars [OF this] r show "r e = Some 0"
    unfolding bt_sticky_def by blast
qed

lemma bt_w_exec_filter:
  assumes "\<forall>r\<in>set memb. \<forall>e\<in>E. r e = Some 0"
  shows "bt_w_exec (filter (\<lambda>c. c \<notin> E) cols) cfg bars memb = bt_w_exec cols cfg bars memb"
  by (simp only: bt_w_exec_def bt_w_target_filter [OF assms])

text \<open>
  A symbol without a close at any bar of the table has no effect on a run: the run
  over the columns without such symbols gives the same result.
\<close>

lemma vector_backtest_filter:
  assumes "\<forall>b\<in>set bars. \<forall>e\<in>E. b_close b e = None"
  shows "vector_backtest (filter (\<lambda>c. c \<notin> E) cols) cfg bars = vector_backtest cols cfg bars"
  by (simp only: vector_backtest_cases bt_out_def bt_sticky_filter [OF assms]
        bt_rows_filter [OF bt_sticky_no_bars [OF assms] assms])

text \<open>
  C4 (amended). Causality for a horizon \<open>K \<ge> 0\<close>. Two runs whose bars agree up to a
  bar (the rows \<open>xs\<close>) and differ in any way after it (\<open>ys\<close> against \<open>zs\<close>: rows
  added, removed or changed) have the same score and membership rows up to that bar,
  the same executed weights and the same rows of \<open>raw_ret\<close>, \<open>tc\<close>, \<open>net_ret\<close> and
  \<open>turnover\<close> for the in-session bars up to it; the output rows that \<open>dropna()\<close>
  keeps of them are the same first rows of both outputs, and the runs fail the
  assertion together. Symbols \<open>E\<close> without a bar up to that bar may be columns of one
  run and not of the other (their bars come later in one run only).
\<close>

theorem no_look_ahead:
  assumes "0 \<le> cfg_K cfg" and "xs \<noteq> []"
    and "\<forall>b\<in>set xs. \<forall>e\<in>E. b_close b e = None"
  shows "take (length xs) (bt_score cfg (xs @ ys)) = take (length xs) (bt_score cfg (xs @ zs))
       \<and> take (length xs) (bt_sticky cols cfg (xs @ ys))
         = take (length xs) (bt_sticky (filter (\<lambda>c. c \<notin> E) cols) cfg (xs @ zs))
       \<and> take (length (loc_mask (bt_mask cfg xs) xs))
              (bt_w_exec cols cfg (xs @ ys) (bt_sticky cols cfg (xs @ ys)))
         = take (length (loc_mask (bt_mask cfg xs) xs))
              (bt_w_exec (filter (\<lambda>c. c \<notin> E) cols) cfg (xs @ zs)
                 (bt_sticky (filter (\<lambda>c. c \<notin> E) cols) cfg (xs @ zs)))
       \<and> take (length (loc_mask (bt_mask cfg xs) xs))
              (bt_rows cols cfg (xs @ ys) (bt_sticky cols cfg (xs @ ys)))
         = take (length (loc_mask (bt_mask cfg xs) xs))
              (bt_rows (filter (\<lambda>c. c \<notin> E) cols) cfg (xs @ zs)
                 (bt_sticky (filter (\<lambda>c. c \<notin> E) cols) cfg (xs @ zs)))
       \<and> map_sum id (take (length (bt_out cols cfg xs (bt_sticky cols cfg xs))))
              (vector_backtest cols cfg (xs @ ys))
         = map_sum id (take (length (bt_out cols cfg xs (bt_sticky cols cfg xs))))
              (vector_backtest (filter (\<lambda>c. c \<notin> E) cols) cfg (xs @ zs))
       \<and> bt_out cols cfg xs (bt_sticky cols cfg xs)
         = dropna (take (length (loc_mask (bt_mask cfg xs) xs))
                     (bt_rows cols cfg (xs @ ys) (bt_sticky cols cfg (xs @ ys))))"
proof -
  let ?m = "length (loc_mask (bt_mask cfg xs) xs)"
  let ?F = "filter (\<lambda>c. c \<notin> E) cols"
  let ?n = "length (bt_out cols cfg xs (bt_sticky cols cfg xs))"
  have p: "prefix xs (xs @ us)" for us by simp
  have score: "take (length xs) (bt_score cfg (xs @ us)) = bt_score cfg xs" for us
    using prefix_take_eq [OF prefix_bt_score [OF assms(1) p, of us]] by simp
  have sticky: "take (length xs) (bt_sticky cs cfg (xs @ us)) = bt_sticky cs cfg xs" for us cs
    using prefix_take_eq [OF prefix_bt_sticky [OF assms(1) p, of cs us]] by simp
  have ps: "prefix (bt_sticky cs cfg xs) (bt_sticky cs cfg (xs @ us))" for us cs
    by (rule prefix_bt_sticky [OF assms(1) p])
  have wexec: "take ?m (bt_w_exec cs cfg (xs @ us) (bt_sticky cs cfg (xs @ us)))
                 = bt_w_exec cs cfg xs (bt_sticky cs cfg xs)" for us cs
    using prefix_take_eq [OF prefix_bt_w_exec [OF p [of us] ps [of cs us], of cs cfg]]
    by (simp add: length_bt_w_exec)
  have rows: "take ?m (bt_rows cs cfg (xs @ us) (bt_sticky cs cfg (xs @ us)))
                 = bt_rows cs cfg xs (bt_sticky cs cfg xs)" for us cs
    using prefix_take_eq [OF prefix_bt_rows [OF p [of us] ps [of cs us], of cs cfg]]
    by (simp add: length_bt_rows)
  have sF: "bt_sticky ?F cfg xs = bt_sticky cols cfg xs"
    by (rule bt_sticky_filter [OF assms(3)])
  have wF: "bt_w_exec ?F cfg xs (bt_sticky cols cfg xs) = bt_w_exec cols cfg xs (bt_sticky cols cfg xs)"
    by (rule bt_w_exec_filter [OF bt_sticky_no_bars [OF assms(3)]])
  have rowsF: "bt_rows ?F cfg xs (bt_sticky cols cfg xs) = bt_rows cols cfg xs (bt_sticky cols cfg xs)"
    by (rule bt_rows_filter [OF bt_sticky_no_bars [OF assms(3)] assms(3)])
  have outF: "bt_out ?F cfg xs (bt_sticky ?F cfg xs) = bt_out cols cfg xs (bt_sticky cols cfg xs)"
    by (simp only: bt_out_def sF rowsF)
  have out: "take (length (bt_out cs cfg xs (bt_sticky cs cfg xs)))
               (bt_out cs cfg (xs @ us) (bt_sticky cs cfg (xs @ us)))
                 = bt_out cs cfg xs (bt_sticky cs cfg xs)" for us cs
    by (rule prefix_take_eq [OF prefix_bt_out [OF p [of us] ps [of cs us], of cs cfg]])
  have run: "map_sum id (take (length (bt_out cs cfg xs (bt_sticky cs cfg xs))))
               (vector_backtest cs cfg (xs @ us)) = vector_backtest cs cfg xs"
    for us cs
    using assms(2) by (simp add: vector_backtest_cases out)
  have runF: "map_sum id (take ?n) (vector_backtest ?F cfg (xs @ zs)) = vector_backtest ?F cfg xs"
    using run [of ?F zs] by (simp only: outF)
  have rF: "vector_backtest ?F cfg xs = vector_backtest cols cfg xs"
    by (rule vector_backtest_filter [OF assms(3)])
  have last: "bt_out cols cfg xs (bt_sticky cols cfg xs)
      = dropna (take ?m (bt_rows cols cfg (xs @ ys) (bt_sticky cols cfg (xs @ ys))))"
    by (simp only: rows bt_out_def)
  have c1: "take (length xs) (bt_score cfg (xs @ ys)) = take (length xs) (bt_score cfg (xs @ zs))"
    by (simp only: score)
  have c2: "take (length xs) (bt_sticky cols cfg (xs @ ys))
         = take (length xs) (bt_sticky ?F cfg (xs @ zs))"
    by (simp only: sticky sF)
  have c3: "take ?m (bt_w_exec cols cfg (xs @ ys) (bt_sticky cols cfg (xs @ ys)))
         = take ?m (bt_w_exec ?F cfg (xs @ zs) (bt_sticky ?F cfg (xs @ zs)))"
    by (simp only: wexec sF wF)
  have c4: "take ?m (bt_rows cols cfg (xs @ ys) (bt_sticky cols cfg (xs @ ys)))
         = take ?m (bt_rows ?F cfg (xs @ zs) (bt_sticky ?F cfg (xs @ zs)))"
    by (simp only: rows sF rowsF)
  have c5: "map_sum id (take ?n) (vector_backtest cols cfg (xs @ ys))
         = map_sum id (take ?n) (vector_backtest ?F cfg (xs @ zs))"
    by (simp only: run runF rF)
  show ?thesis
    by (intro conjI c1 c2 c3 c4 c5 last)
qed

section \<open>Executed weights are numbers\<close>

lemma band_step_defined:
  "prev s \<noteq> None \<Longrightarrow> row s \<noteq> None \<Longrightarrow> band_step band prev row s \<noteq> None"
  unfolding band_step_def Let_def by simp

lemma numbers_nth: "numbers rows \<Longrightarrow> t < length rows \<Longrightarrow> (rows ! t) s \<noteq> None"
  by (simp add: numbers_def)

lemma numbersI: "(\<And>t s. t < length rows \<Longrightarrow> (rows ! t) s \<noteq> None) \<Longrightarrow> numbers rows"
  unfolding numbers_def by (metis in_set_conv_nth)

lemma numbers_rate_limit_time:
  assumes "numbers w"
  shows "numbers (rate_limit_time w step_bps max_w)"
proof (rule numbersI)
  fix t s assume "t < length (rate_limit_time w step_bps max_w)"
  then have t: "t < length w" by simp
  show "(rate_limit_time w step_bps max_w ! t) s \<noteq> None"
    unfolding rate_limit_time_def Let_def
    using t assms
    by (intro scan_rows_defined rate_limit_step_defined)
       (simp_all add: zero_row_def const_row_def numbers_nth)
qed

lemma numbers_apply_no_trade_band:
  assumes "numbers w"
  shows "numbers (apply_no_trade_band w band_bps)"
proof (rule numbersI)
  fix t s assume "t < length (apply_no_trade_band w band_bps)"
  then have t: "t < length w" by simp
  show "(apply_no_trade_band w band_bps ! t) s \<noteq> None"
    unfolding apply_no_trade_band_def Let_def
    using t assms
    by (intro scan_rows_defined band_step_defined)
       (simp_all add: zero_row_def const_row_def numbers_nth)
qed

lemma clip_defined: "c \<noteq> None \<Longrightarrow> clip lo hi c \<noteq> None"
  by (cases c) simp_all

lemma fillna_defined [simp]: "fillna v c \<noteq> None"
  by (cases c) simp_all

lemma clip_fillna_Some: "\<exists>y. clip lo hi (fillna v c) = Some y"
  by (cases c) simp_all

lemma numbers_bt_w_target: "numbers (bt_w_target cols cfg bars memb)"
  unfolding numbers_def bt_w_target_def Let_def
  by (auto simp: clip_fillna_Some)

lemma numbers_bt_w_exec: "numbers (bt_w_exec cols cfg bars memb)"
proof -
  have e: "numbers (map (\<lambda>(e, r). if e then zero_row else r) (zip fl w))" if "numbers w" for fl w
    using that unfolding numbers_def
    by (auto simp: zero_row_def const_row_def dest!: set_zip_rightD)
  have g: "numbers (map (\<lambda>r s. map_option f (r s)) w)" if "numbers w" for f w
    using that unfolding numbers_def by auto
  show ?thesis
    unfolding bt_w_exec_def Let_def
    by (cases "cfg_exec_mode cfg")
       (auto intro!: e g numbers_rate_limit_time numbers_apply_no_trade_band numbers_bt_w_target)
qed

section \<open>The output rows\<close>

lemma loc_mask_map: "loc_mask msk (map f xs) = map f (loc_mask msk xs)"
  unfolding loc_mask_def
  by (induction msk arbitrary: xs) (auto simp: zip_Cons1 split: list.splits)

lemma shift_rows_nth:
  "t < length w \<Longrightarrow> shift_rows w ! t = (if t = 0 then nan_row else w ! (t - 1))"
  by (cases t) (simp_all add: shift_rows_def)

lemma bt_rows_nth:
  assumes "length memb = length bars" and "t < length (loc_mask (bt_mask cfg bars) bars)"
  shows "bt_rows cols cfg bars memb ! t =
           (let w_exec = bt_w_exec cols cfg bars memb;
                b = loc_mask (bt_mask cfg bars) bars ! t;
                g = xnansum cols (\<lambda>s. xmul (if t = 0 then Some 0 else (w_exec ! (t - 1)) s)
                                           (xsub (xdiv (b_close b s) (b_open b s)) (Fin 1)));
                c = costs_from_turnover cols w_exec (cfg_cost_bps cfg) ! t
            in \<lparr>raw_ret = g, tc = Some c, net_ret = xsub g (Fin c),
                 turnover = Some (turnover_of cols w_exec ! t)\<rparr>)"
proof -
  let ?w = "bt_w_exec cols cfg bars memb"
  have lw: "length ?w = length (loc_mask (bt_mask cfg bars) bars)"
    by (rule length_bt_w_exec [OF assms(1)])
  have t: "t < length ?w" using assms(2) lw by simp
  have "(bt_w_lag ?w ! t) s = (if t = 0 then Some 0 else (?w ! (t - 1)) s)" for s
  proof (cases "t = 0")
    case True
    then show ?thesis using t by (simp add: bt_w_lag_def shift_rows_def shift_rows_nth nan_row_def)
  next
    case False
    then have "(?w ! (t - 1)) s \<noteq> None"
      using numbers_nth [OF numbers_bt_w_exec, of "t - 1" cols cfg bars memb s] t by simp
    then show ?thesis
      using False t by (auto simp: bt_w_lag_def shift_rows_def shift_rows_nth)
  qed
  then have lag: "bt_w_lag ?w ! t = (\<lambda>s. if t = 0 then Some 0 else (?w ! (t - 1)) s)"
    by (rule ext)
  have rets: "bt_rets_oc cfg bars ! t =
      (\<lambda>s. xsub (xdiv (b_close (loc_mask (bt_mask cfg bars) bars ! t) s)
                       (b_open (loc_mask (bt_mask cfg bars) bars ! t) s)) (Fin 1))"
    using assms(2) by (simp add: bt_rets_oc_def loc_mask_map)
  have lr: "length (bt_rets_oc cfg bars) = length ?w"
    by (simp add: length_bt_rets_oc lw)
  show ?thesis
    using t lr
    by (simp add: bt_rows_def Let_def lag rets flt_of_def)
qed

lemma xsub_Fin_NaN_iff: "xsub g (Fin c) = NaN \<longleftrightarrow> g = NaN"
  by (cases g) simp_all

text \<open>\<open>dropna()\<close> removes exactly the rows whose \<open>raw_ret\<close> is NaN.\<close>

lemma dropna_bt_rows:
  "dropna (bt_rows cols cfg bars memb)
     = filter (\<lambda>r. raw_ret r \<noteq> NaN) (bt_rows cols cfg bars memb)"
  unfolding dropna_def bt_rows_def Let_def
  by (rule filter_cong [OF refl]) (auto simp: flt_of_def xsub_Fin_NaN_iff)

text \<open>
  C6. Gross return accounting. A run that passes the assertion computes one row per
  in-session bar and returns those whose \<open>raw_ret\<close> is not NaN (\<open>dropna()\<close>). At
  in-session bar \<open>t\<close>, \<open>raw_ret\<close> is the sum over the symbols of the executed weight of
  in-session bar \<open>t - 1\<close> (all-zero before the first one; the executed weights are
  always numbers) times \<open>close/open - 1\<close> of bar \<open>t\<close>, where the sum is the one of the
  floats: a symbol without an open or a close at that bar contributes nothing (NaN is
  skipped), a zero open gives an infinite term. \<open>net_ret\<close> is \<open>raw_ret - tc\<close>.
\<close>

theorem gross_return_accounting:
  assumes "cfg_q_in cfg \<le> cfg_q_out cfg"
    and "t < length (loc_mask (bt_mask cfg bars) bars)"
  shows "vector_backtest cols cfg bars
           = Inr (filter (\<lambda>r. raw_ret r \<noteq> NaN)
                    (bt_rows cols cfg bars (bt_sticky cols cfg bars)))
         \<and> length (bt_rows cols cfg bars (bt_sticky cols cfg bars))
           = length (loc_mask (bt_mask cfg bars) bars)
         \<and> numbers (bt_w_exec cols cfg bars (bt_sticky cols cfg bars))
         \<and> raw_ret (bt_rows cols cfg bars (bt_sticky cols cfg bars) ! t) =
               xnansum cols
                 (\<lambda>s. xmul (if t = 0 then Some 0
                             else (bt_w_exec cols cfg bars (bt_sticky cols cfg bars) ! (t - 1)) s)
                            (xsub (xdiv (b_close (loc_mask (bt_mask cfg bars) bars ! t) s)
                                        (b_open (loc_mask (bt_mask cfg bars) bars ! t) s))
                                  (Fin 1)))
         \<and> tc (bt_rows cols cfg bars (bt_sticky cols cfg bars) ! t) \<noteq> None
         \<and> net_ret (bt_rows cols cfg bars (bt_sticky cols cfg bars) ! t)
           = xsub (raw_ret (bt_rows cols cfg bars (bt_sticky cols cfg bars) ! t))
                  (flt_of (tc (bt_rows cols cfg bars (bt_sticky cols cfg bars) ! t)))"
proof -
  have "bars \<noteq> []"
    using assms(2) by (auto simp: loc_mask_def)
  then have run: "vector_backtest cols cfg bars
      = Inr (filter (\<lambda>r. raw_ret r \<noteq> NaN) (bt_rows cols cfg bars (bt_sticky cols cfg bars)))"
    using assms(1) by (simp add: vector_backtest_cases bt_out_def dropna_bt_rows)
  have len: "length (bt_sticky cols cfg bars) = length bars" by simp
  show ?thesis
    using run bt_rows_nth [OF len assms(2), of cols] length_bt_rows [OF len, of cols cfg]
      numbers_bt_w_exec [of cols cfg bars "bt_sticky cols cfg bars"]
    by (simp add: Let_def flt_of_def)
qed

section \<open>Flat rows\<close>

lemma nansum_abs_zeroD:
  assumes "nansum cols (\<lambda>s. fabs (r s)) = 0" and "s \<in> set cols"
  shows "r s = None \<or> r s = Some 0"
proof -
  let ?g = "\<lambda>s. case fabs (r s) of None \<Rightarrow> 0 | Some x \<Rightarrow> x"
  have nonneg: "\<forall>x\<in>set (map ?g cols). 0 \<le> x"
    by (auto simp: fabs_def split: option.splits)
  have "sum_list (map ?g cols) = 0"
    using assms(1) by (simp add: nansum_def)
  then have "\<forall>x\<in>set (map ?g cols). x = 0"
    using nonneg sum_list_nonneg_eq_0_iff [of "map ?g cols"] by blast
  then have "?g s = 0"
    using assms(2) by simp
  then show ?thesis
    by (cases "r s") (simp_all add: fabs_def)
qed

lemma scan_ffill_None_iff:
  "t < length rows \<Longrightarrow>
   (scan_rows ffill_step prev rows ! t) s = None
     \<longleftrightarrow> prev s = None \<and> (\<forall>u\<le>t. (rows ! u) s = None)"
proof (induction rows arbitrary: prev t)
  case Nil
  then show ?case by simp
next
  case (Cons row rows)
  show ?case
  proof (cases t)
    case 0
    then show ?thesis by (simp add: ffill_step_def split: option.splits)
  next
    case (Suc k)
    then have k: "k < length rows" using Cons.prems by simp
    have "(\<forall>u\<le>Suc k. ((row # rows) ! u) s = None)
            \<longleftrightarrow> row s = None \<and> (\<forall>u\<le>k. (rows ! u) s = None)"
      by (auto simp: nth_Cons split: nat.splits)
    then show ?thesis
      using Cons.IH [OF k, of "ffill_step prev row"] Suc
      by (auto simp: ffill_step_def split: option.splits)
  qed
qed

lemma ffill_None_iff:
  "t < length rows \<Longrightarrow> (ffill rows ! t) s = None \<longleftrightarrow> (\<forall>u\<le>t. (rows ! u) s = None)"
  by (simp add: ffill_def scan_ffill_None_iff nan_row_def)

lemma scan_ffill_nonzero:
  "prev s \<noteq> Some 0 \<Longrightarrow> \<forall>r\<in>set rows. r s \<noteq> Some 0 \<Longrightarrow> t < length rows \<Longrightarrow>
   (scan_rows ffill_step prev rows ! t) s \<noteq> Some 0"
proof (induction rows arbitrary: prev t)
  case Nil
  then show ?case by simp
next
  case (Cons row rows)
  have step: "ffill_step prev row s \<noteq> Some 0"
    using Cons.prems(1,2) by (auto simp: ffill_step_def split: option.splits)
  show ?case
  proof (cases t)
    case 0
    then show ?thesis using step by simp
  next
    case (Suc k)
    then show ?thesis
      using Cons.IH [of "ffill_step prev row" k] step Cons.prems(2,3) by simp
  qed
qed

lemma sticky_rows_zero_down:
  assumes "t < length (sticky_rows cols score q_in q_out um)"
    and "(sticky_rows cols score q_in q_out um ! t) s = Some 0"
    and "u \<le> t"
  shows "(sticky_rows cols score q_in q_out um ! u) s = Some 0"
proof -
  define m where "m = map (\<lambda>r s. replace_zero_nan (r s))
      (map (\<lambda>(u, cur). if u then cur else zero_row)
        (zip um (scan_rows (sticky_prev cols q_in q_out) zero_row (zip um score))))"
  have M: "sticky_rows cols score q_in q_out um = map (\<lambda>r s. fillna 0 (r s)) (ffill m)"
    by (simp add: sticky_rows_def m_def Let_def)
  have t: "t < length m" using assms(1) by (simp add: M)
  have nz: "\<forall>r\<in>set m. r s \<noteq> Some 0"
    by (auto simp: m_def replace_zero_nan_def)
  have "(ffill m ! t) s \<noteq> Some 0"
    using scan_ffill_nonzero [OF _ nz t, of nan_row] by (simp add: ffill_def nan_row_def)
  then have "(ffill m ! t) s = None"
    using assms(2) t by (cases "(ffill m ! t) s") (simp_all add: M)
  then have "\<forall>k\<le>t. (m ! k) s = None"
    using t by (simp add: ffill_None_iff)
  then have "(ffill m ! u) s = None"
    using assms(3) t by (simp add: ffill_None_iff)
  then show ?thesis
    using assms(3) t by (simp add: M)
qed

lemma sorted_wrt_loc_mask:
  assumes "sorted_wrt R xs"
  shows "sorted_wrt R (loc_mask msk xs)"
proof -
  have "sorted_wrt (\<lambda>x y. R (snd x) (snd y)) (zip msk xs)"
    unfolding sorted_wrt_iff_nth_less
  proof (intro allI impI)
    fix i j assume ij: "i < j" and j: "j < length (zip msk xs)"
    then have "i < length xs" "j < length xs" "i < length msk" "j < length msk" by simp_all
    then show "R (snd (zip msk xs ! i)) (snd (zip msk xs ! j))"
      using assms ij by (simp add: sorted_wrt_iff_nth_less)
  qed
  then show ?thesis
    unfolding loc_mask_def by (simp add: sorted_wrt_map sorted_wrt_filter)
qed

lemma bt_memb_zero_down:
  assumes "t < length (bt_memb cfg bars (bt_sticky cols cfg bars))"
    and "(bt_memb cfg bars (bt_sticky cols cfg bars) ! t) s = Some 0"
    and "u \<le> t"
  shows "(bt_memb cfg bars (bt_sticky cols cfg bars) ! u) s = Some 0"
proof (cases "u = t")
  case True
  then show ?thesis using assms(2) by simp
next
  case False
  let ?R = "\<lambda>a b :: 'a row. b s = Some 0 \<longrightarrow> a s = Some 0"
  have "sorted_wrt ?R (bt_sticky cols cfg bars)"
    unfolding bt_sticky_def sorted_wrt_iff_nth_less
  proof (intro allI impI)
    fix i j
    assume "i < j" and j: "j < length (sticky_rows cols (bt_score cfg bars) (cfg_q_in cfg)
        (cfg_q_out cfg) (bt_update_mask cfg bars))"
      and z: "(sticky_rows cols (bt_score cfg bars) (cfg_q_in cfg) (cfg_q_out cfg)
        (bt_update_mask cfg bars) ! j) s = Some 0"
    then have "i \<le> j" by simp
    from sticky_rows_zero_down [OF j z this]
    show "(sticky_rows cols (bt_score cfg bars) (cfg_q_in cfg) (cfg_q_out cfg)
        (bt_update_mask cfg bars) ! i) s = Some 0" .
  qed
  then have "sorted_wrt ?R (bt_memb cfg bars (bt_sticky cols cfg bars))"
    unfolding bt_memb_def by (rule sorted_wrt_loc_mask)
  moreover have "u < t" using False assms(3) by simp
  ultimately show ?thesis
    using assms(1,2) unfolding sorted_wrt_iff_nth_less by blast
qed

lemma fillna_Some: "\<exists>y. fillna v c = Some y"
  by (cases c) simp_all

lemma fdiv_zero [simp]: "fdiv c (Some 0) = None"
  by (cases c) simp_all

lemma sticky_rows_numbers: "numbers (sticky_rows cols score q_in q_out um)"
  unfolding numbers_def sticky_rows_def Let_def by (auto simp: fillna_Some)

lemma numbers_loc_mask: "numbers rows \<Longrightarrow> numbers (loc_mask msk rows)"
  unfolding numbers_def loc_mask_def by (auto dest!: set_zip_rightD)

lemma bt_w_target_flat:
  assumes t: "t < length (bt_memb cfg bars (bt_sticky cols cfg bars))"
    and flat: "nansum cols (\<lambda>s. fabs ((bt_memb cfg bars (bt_sticky cols cfg bars) ! t) s)) = 0"
  shows "(bt_w_target cols cfg bars (bt_sticky cols cfg bars) ! t) s = Some 0"
proof -
  let ?memb = "bt_memb cfg bars (bt_sticky cols cfg bars)"
  let ?size = "\<lambda>r. let tot = nansum cols (\<lambda>s. fabs (r s))
                    in (\<lambda>s. fmul (fdiv (fillna 0 (r s)) (Some tot)) (Some (cfg_gross cfg)))"
  let ?um = "loc_mask (bt_mask cfg bars) (bt_update_mask cfg bars)"
  let ?w1 = "map (\<lambda>(u, r). if u then r else nan_row) (zip ?um (map ?size ?memb))"
  have num: "numbers ?memb"
    unfolding bt_memb_def bt_sticky_def by (intro numbers_loc_mask sticky_rows_numbers)
  have zero_t: "(?memb ! t) c = Some 0" if "c \<in> set cols" for c
    using nansum_abs_zeroD [OF flat that] numbers_nth [OF num t, of c] by simp
  have zero_u: "(?memb ! u) c = Some 0" if "c \<in> set cols" "u \<le> t" for c u
    using bt_memb_zero_down [OF t zero_t [OF that(1)] that(2)] .
  have tot_u: "nansum cols (\<lambda>s. fabs ((?memb ! u) s)) = 0" if "u \<le> t" for u
    using zero_u [OF _ that] by (intro nansum_zero) (simp add: fabs_def)
  have lum: "length ?um = length ?memb"
    by (simp add: bt_memb_def length_loc_mask)
  have w1_u: "(?w1 ! u) c = None" if "u \<le> t" for u c
    using that t lum tot_u [OF that] by (simp add: Let_def nan_row_def)
  have "(ffill ?w1 ! t) s = None"
    using t lum w1_u by (simp add: ffill_None_iff)
  then show ?thesis
    using t lum by (simp add: bt_w_target_def Let_def)
qed

lemma size_positions_flat:
  assumes "t < length raw" and "nansum cols (\<lambda>s. fabs ((raw ! t) s)) = 0"
  shows "(size_positions cols raw gross max_w ! t) s = Some 0"
proof -
  have "nansum cols (\<lambda>s. fabs (Some 0)) = 0"
    by (intro nansum_zero) (simp add: fabs_def)
  then show ?thesis
    using assms by (simp add: size_positions_def Let_def)
qed

text \<open>
  C3. A row whose absolute membership values sum to zero has target weight 0 for every
  symbol, for every gross and cap: in the backtest (lines 269-272, on the membership
  frame of the run restricted to the session mask), and in \<open>size_positions\<close> for
  any raw frame.
\<close>

theorem flat_row_has_zero_target:
  "(t < length (bt_memb cfg bars (bt_sticky cols cfg bars))
     \<and> nansum cols (\<lambda>s. fabs ((bt_memb cfg bars (bt_sticky cols cfg bars) ! t) s)) = 0
     \<longrightarrow> (bt_w_target cols cfg bars (bt_sticky cols cfg bars) ! t) s = Some 0)
   \<and> (u < length raw \<and> nansum cols (\<lambda>s. fabs ((raw ! u) s)) = 0
     \<longrightarrow> (size_positions cols raw gross max_w ! u) s = Some 0)"
proof (intro conjI impI)
  assume "t < length (bt_memb cfg bars (bt_sticky cols cfg bars))
     \<and> nansum cols (\<lambda>s. fabs ((bt_memb cfg bars (bt_sticky cols cfg bars) ! t) s)) = 0"
  then show "(bt_w_target cols cfg bars (bt_sticky cols cfg bars) ! t) s = Some 0"
    by (elim conjE) (rule bt_w_target_flat)
next
  assume "u < length raw \<and> nansum cols (\<lambda>s. fabs ((raw ! u) s)) = 0"
  then show "(size_positions cols raw gross max_w ! u) s = Some 0"
    by (elim conjE) (rule size_positions_flat)
qed

section \<open>The small run, evaluated\<close>

lemmas ex_defs = ex_cols_def ex_row_def ex_bars_def ex_cfg_def ex_cfg_invalid_def

lemmas row_defs = zero_row_def const_row_def nan_row_def fabs_def xnan_row_def xconst_row_def

lemmas sticky_defs = sticky_rows_def sticky_prev_def sticky_step_def rank_pct_def
  rank_first_def ffill_def ffill_step_def replace_zero_nan_def

lemmas bt_defs = bt_w_exec_def bt_w_target_def bt_memb_def loc_mask_def rate_limit_time_def
  rate_limit_step_def bt_out_def bt_rows_def bt_rets_oc_def bt_w_lag_def shift_rows_def
  dropna_def costs_from_turnover_def turnover_of_def nansum_def xnansum_def flt_of_def

lemma ex_mask: "bt_mask ex_cfg ex_bars = [False, True, True]"
  by (simp add: bt_mask_def ex_defs)

lemma ex_update: "bt_update_mask ex_cfg ex_bars = [True, True, True]"
  by (simp add: bt_update_mask_def bar_num_def ex_defs upt_rec_numeral)

lemma ex_rows:
  "bt_rows ex_cols ex_cfg ex_bars (bt_sticky ex_cols ex_cfg ex_bars)
     = [\<lparr>raw_ret = Fin 0, tc = Some 0, net_ret = Fin 0, turnover = Some 0\<rparr>,
        \<lparr>raw_ret = Fin (- 1 / 2), tc = Some 0, net_ret = Fin (- 1 / 2),
           turnover = Some 0\<rparr>]"
  using ln_gt_zero [of 2]
  by (simp only: bt_sticky_def bt_rows_def
        bt_w_exec_def bt_w_target_def bt_memb_def bt_rets_oc_def ex_update ex_mask)
     (simp add: bt_score_def ex_defs diff_rows_def xdiff_rows_def row_defs Let_def upt_rec_numeral
        frame_values_def sticky_defs bt_defs)

lemma ex_out:
  "vector_backtest ex_cols ex_cfg ex_bars
     = Inr [\<lparr>raw_ret = Fin 0, tc = Some 0, net_ret = Fin 0, turnover = Some 0\<rparr>,
            \<lparr>raw_ret = Fin (- 1 / 2), tc = Some 0, net_ret = Fin (- 1 / 2),
               turnover = Some 0\<rparr>]"
  by (simp add: vector_backtest_cases bt_out_def ex_rows dropna_def) (simp add: ex_defs)

text \<open>
  Zero prices. With both opens of the last bar zero the two bar returns are infinite,
  the weights -0.5 and 0.5 give \<open>-inf + inf\<close>, which is NaN, and \<open>dropna()\<close> removes
  the row. With the open of A zero only, \<open>raw_ret\<close> is \<open>-inf\<close> and the row stays. A
  zero close gives the score \<open>inf\<close>, which is ranked like a number.
\<close>

lemma ex_zero_opens:
  "vector_backtest ex_cols ex_cfg ex_bars_zero_opens
     = Inr [\<lparr>raw_ret = Fin 0, tc = Some 0, net_ret = Fin 0, turnover = Some 0\<rparr>]"
  using ln_gt_zero [of 2]
  by (simp add: vector_backtest_def sticky_membership_def bt_update_mask_def bar_num_def
        bt_mask_def bt_score_def ex_defs ex_bars_zero_opens_def diff_rows_def xdiff_rows_def
        row_defs Let_def upt_rec_numeral sticky_defs bt_defs)

lemma ex_zero_open:
  "vector_backtest ex_cols ex_cfg ex_bars_zero_open
     = Inr [\<lparr>raw_ret = Fin 0, tc = Some 0, net_ret = Fin 0, turnover = Some 0\<rparr>,
            \<lparr>raw_ret = NInf, tc = Some 0, net_ret = NInf, turnover = Some 0\<rparr>]"
  using ln_gt_zero [of 2]
  by (simp add: vector_backtest_def sticky_membership_def bt_update_mask_def bar_num_def
        bt_mask_def bt_score_def ex_defs ex_bars_zero_open_def diff_rows_def xdiff_rows_def
        row_defs Let_def upt_rec_numeral sticky_defs bt_defs)

lemma ex_zero_close:
  "frame_values ex_cols (bt_score ex_cfg ex_bars_zero_close)
     = [[NaN, NaN], [Fin (- ln 2), Fin (ln 2)], [Fin (ln 2 - ln 4), PInf]]
   \<and> frame_values ex_cols (map (rank_pct ex_cols) (bt_score ex_cfg ex_bars_zero_close))
     = [[None, None], [Some (1 / 2), Some 1], [Some (1 / 2), Some 1]]"
  using ln_gt_zero [of 2]
  by (simp add: bt_score_def ex_defs ex_bars_zero_close_def xdiff_rows_def row_defs Let_def
        upt_rec_numeral frame_values_def rank_pct_def rank_first_def)

text \<open>
  C1 fails on the code. In the small run A is the past winner (its one-bar log return
  is \<open>ln 2\<close> at the second bar) and B the past loser (\<open>- ln 2\<close>). Momentum mode scores
  \<open>-retK\<close>, the winner gets the lowest percentile rank, and \<open>sticky_membership\<close> makes
  high ranks long: A is short (-1) and B is long (+1). Mean-reversion mode gives the
  opposite: the winner A is long.
\<close>

theorem momentum_mode_shorts_past_winner:
  "cfg_signal_mode ex_cfg = Momentum
   \<and> frame_values ex_cols (bt_score ex_cfg ex_bars)
       = [[NaN, NaN], [Fin (- ln 2), Fin (ln 2)], [Fin (ln 2 - ln 4), Fin 0]]
   \<and> map_sum id (frame_values ex_cols)
        (sticky_membership ex_cols (bt_score ex_cfg ex_bars) (cfg_q_in ex_cfg) (cfg_q_out ex_cfg)
           (Some (bt_update_mask ex_cfg ex_bars)))
       = Inr [[Some 0, Some 0], [Some (- 1), Some 1], [Some (- 1), Some 1]]
   \<and> map_sum id (frame_values ex_cols)
        (sticky_membership ex_cols (bt_score (ex_cfg\<lparr>cfg_signal_mode := MeanRev\<rparr>) ex_bars)
           (cfg_q_in ex_cfg) (cfg_q_out ex_cfg) (Some (bt_update_mask ex_cfg ex_bars)))
       = Inr [[Some 0, Some 0], [Some 1, Some (- 1)], [Some 1, Some (- 1)]]"
  using ln_gt_zero [of 2]
  by (simp only: ex_update)
     (simp add: sticky_membership_def bt_score_def ex_defs diff_rows_def xdiff_rows_def row_defs Let_def
        upt_rec_numeral frame_values_def sticky_defs)

text \<open>
  C2 fails on the code. One symbol, two update times: the symbol has a score at the
  first and none at the second. The loop sets its membership to 0 at the second time,
  and line 96 (\<open>replace(0.0, nan).ffill()\<close>) overwrites that 0 with the stale +1.
\<close>

theorem sticky_membership_inherits_stale:
  "map_sum id (frame_values [()])
     (sticky_membership [()] [xconst_row 1, xnan_row] (1 / 4) (7 / 20) None)
   = Inr [[Some 1], [Some 1]]"
  by (simp add: sticky_membership_def sticky_defs row_defs frame_values_def Let_def)

text \<open>
  C7 fails on the code at the first output bar. In the small run the executed weights
  of the first output bar are -0.5 and 0.5, so the claimed turnover is 1 and the
  claimed cost 0.001; \<open>diff()\<close> has no earlier row there, its NaN is skipped by the
  sum, and the run reports turnover 0 and cost 0.
\<close>

theorem first_bar_turnover_is_zero:
  "frame_values ex_cols (bt_w_exec ex_cols ex_cfg ex_bars (bt_sticky ex_cols ex_cfg ex_bars))
     = [[Some (- 1 / 2), Some (1 / 2)], [Some (- 1 / 2), Some (1 / 2)]]
   \<and> vector_backtest ex_cols ex_cfg ex_bars
     = Inr [\<lparr>raw_ret = Fin 0, tc = Some 0, net_ret = Fin 0, turnover = Some 0\<rparr>,
            \<lparr>raw_ret = Fin (- 1 / 2), tc = Some 0, net_ret = Fin (- 1 / 2),
               turnover = Some 0\<rparr>]"
proof -
  have "frame_values ex_cols (bt_w_exec ex_cols ex_cfg ex_bars (bt_sticky ex_cols ex_cfg ex_bars))
          = [[Some (- 1 / 2), Some (1 / 2)], [Some (- 1 / 2), Some (1 / 2)]]"
    using ln_gt_zero [of 2]
    by (simp only: bt_sticky_def bt_w_exec_def bt_w_target_def bt_memb_def ex_update ex_mask)
       (simp add: bt_score_def ex_defs diff_rows_def xdiff_rows_def row_defs Let_def upt_rec_numeral
          frame_values_def sticky_defs bt_defs)
  then show ?thesis
    by (simp add: ex_out)
qed

section \<open>Configuration checks\<close>

text \<open>
  C9 as stated fails: a run with \<open>K = 0\<close> and a cap of 2 above a gross of 1 reports no
  failure and returns its output rows.
\<close>

theorem invalid_config_runs_counterexample:
  "cfg_K ex_cfg_invalid \<le> 0
   \<and> cfg_max_w ex_cfg_invalid > cfg_gross ex_cfg_invalid
   \<and> vector_backtest ex_cols ex_cfg_invalid ex_bars
     = Inr [\<lparr>raw_ret = Fin 0, tc = Some 0, net_ret = Fin 0, turnover = Some 0\<rparr>,
            \<lparr>raw_ret = Fin (- 1 / 2), tc = Some 0, net_ret = Fin (- 1 / 2),
               turnover = Some 0\<rparr>]"
  by (simp add: vector_backtest_def sticky_membership_def bt_update_mask_def bar_num_def
        bt_mask_def bt_score_def ex_defs diff_rows_def xdiff_rows_def row_defs Let_def upt_rec_numeral
        frame_values_def sticky_defs bt_defs)

text \<open>
  C9 (amended). The only configuration check is the assertion of \<open>sticky_membership\<close>:
  a run on a non-empty table fails with it exactly when \<open>q_out < q_in\<close>, whatever the
  bars and the other settings (the horizon, the cap, the gross); the score is computed
  before the call, the membership is not.
\<close>

theorem assertion_iff_q_out_below_q_in:
  assumes "bars \<noteq> []"
  shows "vector_backtest cols cfg bars = Inl AssertionError \<longleftrightarrow> cfg_q_out cfg < cfg_q_in cfg"
  using assms by (simp add: vector_backtest_cases)

theorem assertion_iff_q_out_below_q_in_witness:
  "ex_bars \<noteq> []
   \<and> cfg_q_out (ex_cfg\<lparr>cfg_q_out := 1 / 4\<rparr>) < cfg_q_in (ex_cfg\<lparr>cfg_q_out := 1 / 4\<rparr>)
   \<and> vector_backtest ex_cols (ex_cfg\<lparr>cfg_q_out := 1 / 4\<rparr>) ex_bars = Inl AssertionError"
  using assertion_iff_q_out_below_q_in [of ex_bars ex_cols "ex_cfg\<lparr>cfg_q_out := 1 / 4\<rparr>"]
  by (simp add: ex_cfg_def ex_bars_def)

section \<open>Instances on the small run\<close>

theorem no_look_ahead_witness:
  "0 \<le> cfg_K ex_cfg
   \<and> take 2 ex_bars \<noteq> []
   \<and> map (\<lambda>b. b_close b ''C'') (take 2 ex_bars) = [None, None]
   \<and> take (length (take 2 ex_bars)) (bt_score ex_cfg (take 2 ex_bars @ drop 2 ex_bars))
       = take (length (take 2 ex_bars)) (bt_score ex_cfg (take 2 ex_bars @ []))
   \<and> map_sum id
        (take (length (bt_out [''A'', ''B'', ''C''] ex_cfg (take 2 ex_bars)
                         (bt_sticky [''A'', ''B'', ''C''] ex_cfg (take 2 ex_bars)))))
        (vector_backtest [''A'', ''B'', ''C''] ex_cfg (take 2 ex_bars @ drop 2 ex_bars))
       = map_sum id
        (take (length (bt_out [''A'', ''B'', ''C''] ex_cfg (take 2 ex_bars)
                         (bt_sticky [''A'', ''B'', ''C''] ex_cfg (take 2 ex_bars)))))
        (vector_backtest (filter (\<lambda>c. c \<notin> {''C''}) [''A'', ''B'', ''C'']) ex_cfg
           (take 2 ex_bars @ []))"
proof -
  have k: "0 \<le> cfg_K ex_cfg" by (simp add: ex_cfg_def)
  have ne: "take 2 ex_bars \<noteq> []" by (simp add: ex_bars_def)
  have c: "map (\<lambda>b. b_close b ''C'') (take 2 ex_bars) = [None, None]"
    by (simp add: ex_bars_def ex_row_def nan_row_def)
  then have e: "\<forall>b\<in>set (take 2 ex_bars). \<forall>e\<in>{''C''}. b_close b e = None"
    by (simp add: ex_bars_def)
  from no_look_ahead [OF k ne e, of "drop 2 ex_bars" "[]" "[''A'', ''B'', ''C'']"] k ne c
  show ?thesis
    by blast
qed

text \<open>
  C4 as stated fails for a negative horizon, which the code accepts: with \<open>K = -1\<close>
  the score and the membership of the first bar (09:30) of the small run depend on the
  bar after it. With the later bars the scores are \<open>ln 2\<close> and \<open>- ln 2\<close> and A is
  long, B short; without them the scores are NaN and both are flat.
\<close>

theorem negative_horizon_counterexample:
  "cfg_K ex_cfg_negative = - 1
   \<and> frame_values ex_cols (take 1 (bt_score ex_cfg_negative (take 1 ex_bars @ drop 1 ex_bars)))
       = [[Fin (ln 2), Fin (- ln 2)]]
   \<and> frame_values ex_cols (take 1 (bt_score ex_cfg_negative (take 1 ex_bars @ [])))
       = [[NaN, NaN]]
   \<and> frame_values ex_cols
        (take 1 (bt_sticky ex_cols ex_cfg_negative (take 1 ex_bars @ drop 1 ex_bars)))
       = [[Some 1, Some (- 1)]]
   \<and> frame_values ex_cols (take 1 (bt_sticky ex_cols ex_cfg_negative (take 1 ex_bars @ [])))
       = [[Some 0, Some 0]]"
  using ln_gt_zero [of 2]
  by (simp add: bt_sticky_def bt_update_mask_def bar_num_def bt_score_def ex_defs
        ex_cfg_negative_def xdiff_rows_def row_defs Let_def upt_rec_numeral frame_values_def
        sticky_defs)

theorem gross_return_accounting_witness:
  "cfg_q_in ex_cfg \<le> cfg_q_out ex_cfg
   \<and> 1 < length (loc_mask (bt_mask ex_cfg ex_bars) ex_bars)
   \<and> vector_backtest ex_cols ex_cfg ex_bars
       = Inr [\<lparr>raw_ret = Fin 0, tc = Some 0, net_ret = Fin 0, turnover = Some 0\<rparr>,
              \<lparr>raw_ret = Fin (- 1 / 2), tc = Some 0, net_ret = Fin (- 1 / 2),
                 turnover = Some 0\<rparr>]
   \<and> xnansum ex_cols
        (\<lambda>s. xmul ((bt_w_exec ex_cols ex_cfg ex_bars (bt_sticky ex_cols ex_cfg ex_bars) ! 0) s)
                   (xsub (xdiv (b_close (loc_mask (bt_mask ex_cfg ex_bars) ex_bars ! 1) s)
                               (b_open (loc_mask (bt_mask ex_cfg ex_bars) ex_bars ! 1) s))
                         (Fin 1)))
       = Fin (- 1 / 2)"
proof -
  have q: "cfg_q_in ex_cfg \<le> cfg_q_out ex_cfg"
    by (simp add: ex_cfg_def)
  have bars: "loc_mask (bt_mask ex_cfg ex_bars) ex_bars = tl ex_bars"
    by (simp add: ex_mask) (simp add: loc_mask_def ex_bars_def)
  have t: "1 < length (loc_mask (bt_mask ex_cfg ex_bars) ex_bars)"
    by (simp add: bars) (simp add: ex_bars_def)
  from gross_return_accounting [OF q t, of ex_cols] q t show ?thesis
    by (simp add: ex_rows)
qed

theorem flat_row_has_zero_target_witness:
  "0 < length (bt_memb (ex_cfg\<lparr>cfg_skip_first_min := 0\<rparr>) ex_bars
                 (bt_sticky ex_cols (ex_cfg\<lparr>cfg_skip_first_min := 0\<rparr>) ex_bars))
   \<and> nansum ex_cols (\<lambda>s. fabs ((bt_memb (ex_cfg\<lparr>cfg_skip_first_min := 0\<rparr>) ex_bars
                 (bt_sticky ex_cols (ex_cfg\<lparr>cfg_skip_first_min := 0\<rparr>) ex_bars) ! 0) s)) = 0
   \<and> (bt_w_target ex_cols (ex_cfg\<lparr>cfg_skip_first_min := 0\<rparr>) ex_bars
         (bt_sticky ex_cols (ex_cfg\<lparr>cfg_skip_first_min := 0\<rparr>) ex_bars) ! 0) ''A'' = Some 0
   \<and> 0 < length [zero_row :: string row]
   \<and> nansum ex_cols (\<lambda>s. fabs (([zero_row :: string row] ! 0) s)) = 0
   \<and> (size_positions ex_cols [zero_row] 1 1 ! 0) ''A'' = Some 0"
proof -
  let ?cfg = "ex_cfg\<lparr>cfg_skip_first_min := 0\<rparr>"
  have m: "bt_mask ?cfg ex_bars = [True, True, True]"
    by (simp add: bt_mask_def ex_defs)
  have u: "bt_update_mask ?cfg ex_bars = [True, True, True]"
    by (simp add: bt_update_mask_def bar_num_def ex_defs upt_rec_numeral)
  have "length (bt_memb ?cfg ex_bars (bt_sticky ex_cols ?cfg ex_bars)) = 3"
    unfolding bt_memb_def
    by (subst length_loc_mask) (simp_all add: m, simp add: ex_bars_def)
  then have len: "0 < length (bt_memb ?cfg ex_bars (bt_sticky ex_cols ?cfg ex_bars))"
    by simp
  have flat: "nansum ex_cols (\<lambda>s. fabs ((bt_memb ?cfg ex_bars (bt_sticky ex_cols ?cfg ex_bars) ! 0) s)) = 0"
    by (simp only: bt_memb_def bt_sticky_def m u)
       (simp add: bt_score_def ex_defs diff_rows_def xdiff_rows_def row_defs Let_def upt_rec_numeral
          sticky_defs loc_mask_def nansum_def)
  have len2: "0 < length [zero_row :: string row]" by simp
  have flat2: "nansum ex_cols (\<lambda>s. fabs (([zero_row :: string row] ! 0) s)) = 0"
    by (simp add: nansum_def ex_cols_def row_defs)
  from flat_row_has_zero_target [of 0 ?cfg ex_bars ex_cols "''A''" 0 "[zero_row]" 1 1]
    len flat len2 flat2
  show ?thesis by blast
qed

end
